theory Spec2Isabelle
  imports Complex_Main
begin

section \<open>Python values, exceptions and builtins\<close>

text \<open>
  The bridge is written in Python and passes JSON payloads around as dictionaries.
  A value is one of the JSON shapes; a dictionary is an association list read with
  \<open>map_of\<close>. Strings are lists of characters, each character standing for the code
  point of the same number (the Latin-1 range of Python's \<open>str\<close>). Floats are kept
  abstract (the type parameter \<open>'f\<close>): their arithmetic comes in as the record
  \<open>py_builtins\<close>.
\<close>

datatype py_error =
  KeyError | IndexError | TypeError | ValueError | AttributeError
  | ZeroDivisionError | OverflowError | RequestException | RpcFault

datatype 'f pyval =
  PNone
  | PBool bool
  | PInt int
  | PFloat 'f
  | PStr string
  | PList "'f pyval list"
  | PDict "(string \<times> 'f pyval) list"

record 'f py_builtins =
  float_of_str :: "string \<Rightarrow> 'f option"
  float_of_int :: "int \<Rightarrow> 'f option"
  float_truediv :: "'f \<Rightarrow> 'f \<Rightarrow> 'f"
  float_is_zero :: "'f \<Rightarrow> bool"
  float_trunc :: "'f \<Rightarrow> py_error + int"
  float_repr :: "'f \<Rightarrow> string"
  container_repr_tail :: "'f pyval \<Rightarrow> string"
  isoformat_minutes :: "string \<Rightarrow> string option"

text \<open>
  \<open>float_of_str\<close> is \<open>float(s)\<close> (\<open>None\<close> for ValueError), \<open>float_of_int\<close> the
  conversion of an integer (\<open>None\<close> for OverflowError), \<open>float_truediv\<close> the quotient
  by a non-zero divisor, \<open>float_trunc\<close> is \<open>int(x)\<close>, \<open>float_repr\<close> is \<open>str(x)\<close>,
  \<open>container_repr_tail\<close> is what follows the opening bracket in the \<open>str\<close> of a list or
  dictionary, and \<open>isoformat_minutes s\<close> is
  \<open>datetime.fromisoformat(s).strftime('%Y-%m-%d %H:%M')\<close> (\<open>None\<close> for ValueError).
\<close>

definition bindE :: "py_error + 'a \<Rightarrow> ('a \<Rightarrow> py_error + 'b) \<Rightarrow> py_error + 'b" where
  "bindE m f = (case m of Inl e \<Rightarrow> Inl e | Inr v \<Rightarrow> f v)"

fun truthy :: "'f py_builtins \<Rightarrow> 'f pyval \<Rightarrow> bool" where
  "truthy bi PNone = False"
| "truthy bi (PBool b) = b"
| "truthy bi (PInt n) = (n \<noteq> 0)"
| "truthy bi (PFloat x) = (\<not> float_is_zero bi x)"
| "truthy bi (PStr s) = (s \<noteq> [])"
| "truthy bi (PList xs) = (xs \<noteq> [])"
| "truthy bi (PDict d) = (d \<noteq> [])"

text \<open>\<open>d[k]\<close> with a string key, \<open>d.get(k, default)\<close>, \<open>xs[0]\<close> and iteration.\<close>

fun py_getitem :: "'f pyval \<Rightarrow> string \<Rightarrow> py_error + 'f pyval" where
  "py_getitem (PDict d) k = (case map_of d k of None \<Rightarrow> Inl KeyError | Some v \<Rightarrow> Inr v)"
| "py_getitem v k = Inl TypeError"

fun py_get :: "'f pyval \<Rightarrow> string \<Rightarrow> 'f pyval \<Rightarrow> py_error + 'f pyval" where
  "py_get (PDict d) k dflt = Inr (case map_of d k of None \<Rightarrow> dflt | Some v \<Rightarrow> v)"
| "py_get v k dflt = Inl AttributeError"

fun py_index0 :: "'f pyval \<Rightarrow> py_error + 'f pyval" where
  "py_index0 (PList []) = Inl IndexError"
| "py_index0 (PList (x # xs)) = Inr x"
| "py_index0 (PStr []) = Inl IndexError"
| "py_index0 (PStr (c # cs)) = Inr (PStr [c])"
| "py_index0 (PDict d) = Inl KeyError"
| "py_index0 v = Inl TypeError"

fun py_iter :: "'f pyval \<Rightarrow> py_error + 'f pyval list" where
  "py_iter (PList xs) = Inr xs"
| "py_iter (PStr s) = Inr (map (\<lambda>c. PStr [c]) s)"
| "py_iter (PDict d) = Inr (map (\<lambda>kv. PStr (fst kv)) d)"
| "py_iter v = Inl TypeError"

subsection \<open>Strings\<close>

definition code_point :: "char \<Rightarrow> nat" where
  "code_point c = of_char c"

text \<open>\<open>str.lower()\<close> on the Latin-1 range: A-Z and the accented capitals move by 32.\<close>

definition lower_char :: "char \<Rightarrow> char" where
  "lower_char c =
     (let n = code_point c
      in if (65 \<le> n \<and> n \<le> 90) \<or> (192 \<le> n \<and> n \<le> 214) \<or> (216 \<le> n \<and> n \<le> 222)
         then char_of (n + 32) else c)"

definition py_lower :: "string \<Rightarrow> string" where
  "py_lower s = map lower_char s"

text \<open>\<open>needle in haystack\<close> for two strings.\<close>

fun starts_with :: "string \<Rightarrow> string \<Rightarrow> bool" where
  "starts_with [] ys = True"
| "starts_with (x # xs) [] = False"
| "starts_with (x # xs) (y # ys) = (x = y \<and> starts_with xs ys)"

fun py_in :: "string \<Rightarrow> string \<Rightarrow> bool" where
  "py_in needle [] = (needle = [])"
| "py_in needle (y # ys) = (starts_with needle (y # ys) \<or> py_in needle ys)"

text \<open>
  \<open>str.isdigit()\<close>: true for a non-empty string all of whose characters are digits.
  Besides 0-9 the superscripts two, three and one (code points 178, 179, 185) are
  digits for \<open>isdigit\<close>; they are not decimal digits, and \<open>int()\<close> rejects them.
\<close>

definition is_decimal_char :: "char \<Rightarrow> bool" where
  "is_decimal_char c = (48 \<le> code_point c \<and> code_point c \<le> 57)"

definition isdigit_char :: "char \<Rightarrow> bool" where
  "isdigit_char c =
     (is_decimal_char c \<or> code_point c = 178 \<or> code_point c = 179 \<or> code_point c = 185)"

definition py_isdigit :: "string \<Rightarrow> bool" where
  "py_isdigit s = (s \<noteq> [] \<and> list_all isdigit_char s)"

definition digit_value :: "char \<Rightarrow> int" where
  "digit_value c = int (code_point c) - 48"

text \<open>The number a string of decimal digits denotes.\<close>

definition decimal_value :: "string \<Rightarrow> int" where
  "decimal_value s = foldl (\<lambda>acc c. acc * 10 + digit_value c) 0 s"

text \<open>
  \<open>int(s)\<close> for a string: white space around, an optional sign, then decimal digits
  in which single underscores may separate digits. The digits are read left to right
  into an accumulator. (The interpreter's optional limit on the number of digits is
  not modelled: integers are unbounded.)
\<close>

definition is_int_space :: "char \<Rightarrow> bool" where
  "is_int_space c =
     (let n = code_point c in (9 \<le> n \<and> n \<le> 13) \<or> n = 32 \<or> n = 133 \<or> n = 160)"

fun scan_digits :: "int \<Rightarrow> bool \<Rightarrow> string \<Rightarrow> int option" where
  "scan_digits acc after_digit [] = (if after_digit then Some acc else None)"
| "scan_digits acc after_digit (c # cs) =
     (if is_decimal_char c then scan_digits (acc * 10 + digit_value c) True cs
      else if c = CHR ''_'' \<and> after_digit \<and> cs \<noteq> [] \<and> is_decimal_char (hd cs)
        then scan_digits acc False cs
      else if after_digit \<and> list_all is_int_space (c # cs) then Some acc
      else None)"

definition int_of_str :: "string \<Rightarrow> int option" where
  "int_of_str s =
     (case dropWhile is_int_space s of
        [] \<Rightarrow> None
      | c # cs \<Rightarrow>
          if c = CHR ''-'' then map_option uminus (scan_digits 0 False cs)
          else if c = CHR ''+'' then scan_digits 0 False cs
          else scan_digits 0 False (c # cs))"

text \<open>\<open>str(n)\<close> for an integer: the decimal digits, with a minus sign when negative.\<close>

fun str_of_nat :: "nat \<Rightarrow> string" where
  "str_of_nat n =
     (if n < 10 then [''0123456789'' ! n]
      else str_of_nat (n div 10) @ [''0123456789'' ! (n mod 10)])"

declare str_of_nat.simps [simp del]

definition str_of_int :: "int \<Rightarrow> string" where
  "str_of_int i = (if i < 0 then CHR ''-'' # str_of_nat (nat (- i)) else str_of_nat (nat i))"

fun py_str :: "'f py_builtins \<Rightarrow> 'f pyval \<Rightarrow> string" where
  "py_str bi PNone = ''None''"
| "py_str bi (PBool b) = (if b then ''True'' else ''False'')"
| "py_str bi (PInt n) = str_of_int n"
| "py_str bi (PFloat x) = float_repr bi x"
| "py_str bi (PStr s) = s"
| "py_str bi (PList xs) = CHR ''['' # container_repr_tail bi (PList xs)"
| "py_str bi (PDict d) = CHR ''{'' # container_repr_tail bi (PDict d)"

text \<open>\<open>int(v)\<close> and \<open>float(v)\<close> on a value.\<close>

fun py_int :: "'f py_builtins \<Rightarrow> 'f pyval \<Rightarrow> py_error + int" where
  "py_int bi (PInt n) = Inr n"
| "py_int bi (PBool b) = Inr (if b then 1 else 0)"
| "py_int bi (PFloat x) = float_trunc bi x"
| "py_int bi (PStr s) = (case int_of_str s of None \<Rightarrow> Inl ValueError | Some n \<Rightarrow> Inr n)"
| "py_int bi v = Inl TypeError"

fun py_float :: "'f py_builtins \<Rightarrow> 'f pyval \<Rightarrow> py_error + 'f" where
  "py_float bi (PFloat x) = Inr x"
| "py_float bi (PInt n) =
     (case float_of_int bi n of None \<Rightarrow> Inl OverflowError | Some x \<Rightarrow> Inr x)"
| "py_float bi (PBool b) =
     (case float_of_int bi (if b then 1 else 0) of None \<Rightarrow> Inl OverflowError | Some x \<Rightarrow> Inr x)"
| "py_float bi (PStr s) =
     (case float_of_str bi s of None \<Rightarrow> Inl ValueError | Some x \<Rightarrow> Inr x)"
| "py_float bi v = Inl TypeError"

section \<open>Storefront client: booking extraction\<close>

text \<open>
  \<open>extract_booking_data\<close> builds one booking dictionary per line item. The keys it
  always sets are the fields of the record; the keys it sets only when a metadata
  entry matches (\<open>booking_date\<close>, \<open>persons\<close>, \<open>duration\<close>, \<open>booking_end\<close>) are
  optional fields, \<open>None\<close> standing for "key not in the dictionary". The key
  \<open>total\<close> is the field \<open>total_price\<close>.
\<close>

record 'f booking =
  order_id :: "'f pyval"
  order_number :: "'f pyval"
  product_id :: "'f pyval"
  product_name :: "'f pyval"
  quantity :: "'f pyval"
  total_price :: 'f
  customer_id :: "'f pyval"
  customer_email :: "'f pyval"
  customer_name :: string
  customer_phone :: "'f pyval"
  booking_date :: "'f pyval option"
  persons :: "int option"
  duration :: "'f pyval option"
  booking_end :: "'f pyval option"

fun py_lower_val :: "'f pyval \<Rightarrow> py_error + string" where
  "py_lower_val (PStr s) = Inr (py_lower s)"
| "py_lower_val v = Inl AttributeError"

text \<open>\<open>int(value) if str(value).isdigit() else 1\<close>\<close>

definition parse_persons :: "'f py_builtins \<Rightarrow> 'f pyval \<Rightarrow> py_error + int" where
  "parse_persons bi v = (if py_isdigit (py_str bi v) then py_int bi v else Inr 1)"

text \<open>The body of the loop over the metadata entries of one line item.\<close>

definition meta_step :: "'f py_builtins \<Rightarrow> 'f booking \<Rightarrow> 'f pyval \<Rightarrow> py_error + 'f booking" where
  "meta_step bi bd meta =
     bindE (py_get meta ''key'' (PStr [])) (\<lambda>k.
     bindE (py_lower_val k) (\<lambda>key.
     bindE (py_get meta ''value'' (PStr [])) (\<lambda>v.
       if py_in ''booking_date'' key \<or> py_in ''from'' key
         then Inr (bd\<lparr>booking_date := Some v\<rparr>)
       else if py_in ''persons'' key \<or> py_in ''person'' key
         then bindE (parse_persons bi v) (\<lambda>n. Inr (bd\<lparr>persons := Some n\<rparr>))
       else if py_in ''duration'' key
         then Inr (bd\<lparr>duration := Some v\<rparr>)
       else if py_in ''to'' key \<and> booking_date bd = None
         then Inr (bd\<lparr>booking_end := Some v\<rparr>)
       else Inr bd)))"

fun scan_meta :: "'f py_builtins \<Rightarrow> 'f booking \<Rightarrow> 'f pyval list \<Rightarrow> py_error + 'f booking" where
  "scan_meta bi bd [] = Inr bd"
| "scan_meta bi bd (m # ms) = bindE (meta_step bi bd m) (\<lambda>bd'. scan_meta bi bd' ms)"

text \<open>The dictionary literal at the head of the loop body, evaluated key by key.\<close>

definition initial_booking :: "'f py_builtins \<Rightarrow> 'f pyval \<Rightarrow> 'f pyval \<Rightarrow> py_error + 'f booking" where
  "initial_booking bi order item =
     bindE (py_getitem order ''id'') (\<lambda>oid.
     bindE (py_getitem order ''number'') (\<lambda>num.
     bindE (py_getitem item ''product_id'') (\<lambda>pid.
     bindE (py_getitem item ''name'') (\<lambda>name.
     bindE (py_getitem item ''quantity'') (\<lambda>qty.
     bindE (bindE (py_getitem item ''total'') (py_float bi)) (\<lambda>tot.
     bindE (py_getitem order ''customer_id'') (\<lambda>cid.
     bindE (bindE (py_getitem order ''billing'') (\<lambda>b. py_getitem b ''email'')) (\<lambda>email.
     bindE (bindE (py_getitem order ''billing'') (\<lambda>b. py_getitem b ''first_name'')) (\<lambda>first.
     bindE (bindE (py_getitem order ''billing'') (\<lambda>b. py_getitem b ''last_name'')) (\<lambda>last.
     bindE (bindE (py_getitem order ''billing'') (\<lambda>b. py_getitem b ''phone'')) (\<lambda>phone.
       Inr \<lparr>order_id = oid, order_number = num, product_id = pid, product_name = name,
            quantity = qty, total_price = tot, customer_id = cid, customer_email = email,
            customer_name = py_str bi first @ '' '' @ py_str bi last,
            customer_phone = phone, booking_date = None, persons = None,
            duration = None, booking_end = None\<rparr>)))))))))))"

definition default_booking_date :: "'f pyval \<Rightarrow> 'f booking \<Rightarrow> py_error + 'f booking" where
  "default_booking_date order bd =
     (if booking_date bd = None
      then bindE (py_getitem order ''date_created'') (\<lambda>d. Inr (bd\<lparr>booking_date := Some d\<rparr>))
      else Inr bd)"

definition default_persons :: "'f booking \<Rightarrow> 'f booking" where
  "default_persons bd = (if persons bd = None then bd\<lparr>persons := Some 1\<rparr> else bd)"

definition item_booking :: "'f py_builtins \<Rightarrow> 'f pyval \<Rightarrow> 'f pyval \<Rightarrow> py_error + 'f booking" where
  "item_booking bi order item =
     bindE (initial_booking bi order item) (\<lambda>bd0.
     bindE (py_get item ''meta_data'' (PList [])) (\<lambda>meta_data.
     bindE (py_iter meta_data) (\<lambda>metas.
     bindE (scan_meta bi bd0 metas) (\<lambda>bd1.
     bindE (default_booking_date order bd1) (\<lambda>bd2.
       Inr (default_persons bd2))))))"

fun item_bookings :: "'f py_builtins \<Rightarrow> 'f pyval \<Rightarrow> 'f pyval list \<Rightarrow> py_error + 'f booking list" where
  "item_bookings bi order [] = Inr []"
| "item_bookings bi order (item # items) =
     bindE (item_booking bi order item) (\<lambda>b.
     bindE (item_bookings bi order items) (\<lambda>bs. Inr (b # bs)))"

definition extract_booking_data :: "'f py_builtins \<Rightarrow> 'f pyval \<Rightarrow> py_error + 'f booking list" where
  "extract_booking_data bi order =
     bindE (py_get order ''line_items'' (PList [])) (\<lambda>line_items.
     bindE (py_iter line_items) (\<lambda>items. item_bookings bi order items))"

section \<open>The remote systems\<close>

text \<open>
  The ERP (reached over XML-RPC) and the storefront (reached over HTTP) are outside
  the program. They are a state \<open>'s\<close> and three functions on it: what each
  remote call answers (a value, or the exception the transport raises) and the state
  afterwards. Nothing is assumed about them. \<open>now_isoformat\<close> reads the clock.
  The world of the program is the remote state, the session id cached by the ERP
  client, and the sequence of remote calls made so far.
\<close>

datatype 'f call =
  Authenticate
  | ExecuteKw "'f pyval" string string "'f pyval list" "(string \<times> 'f pyval) list"
  | Request string string "'f pyval" "'f pyval"

record ('s, 'f) env =
  odoo_authenticate :: "'s \<Rightarrow> (py_error + 'f pyval) \<times> 's"
  odoo_execute_kw ::
    "'s \<Rightarrow> 'f pyval \<Rightarrow> string \<Rightarrow> string \<Rightarrow> 'f pyval list \<Rightarrow> (string \<times> 'f pyval) list
      \<Rightarrow> (py_error + 'f pyval) \<times> 's"
  woo_request ::
    "'s \<Rightarrow> string \<Rightarrow> string \<Rightarrow> 'f pyval \<Rightarrow> 'f pyval \<Rightarrow> (py_error + int \<times> 'f pyval) \<times> 's"
  now_isoformat :: "'s \<Rightarrow> string"

record ('s, 'f) world =
  remote :: 's
  uid :: "'f pyval"
  calls :: "'f call list"

section \<open>ERP client\<close>

definition authenticate ::
  "('s, 'f) env \<Rightarrow> 'f py_builtins \<Rightarrow> ('s, 'f) world \<Rightarrow> bool \<times> ('s, 'f) world" where
  "authenticate env bi w =
     (case odoo_authenticate env (remote w) of
        (Inl e, s) \<Rightarrow> (False, w\<lparr>remote := s, calls := calls w @ [Authenticate]\<rparr>)
      | (Inr u, s) \<Rightarrow>
          (truthy bi u, w\<lparr>remote := s, uid := u, calls := calls w @ [Authenticate]\<rparr>))"

text \<open>\<open>if not self.uid: self.authenticate()\<close>\<close>

definition ensure_uid ::
  "('s, 'f) env \<Rightarrow> 'f py_builtins \<Rightarrow> ('s, 'f) world \<Rightarrow> ('s, 'f) world" where
  "ensure_uid env bi w = (if truthy bi (uid w) then w else snd (authenticate env bi w))"

definition execute_kw ::
  "('s, 'f) env \<Rightarrow> string \<Rightarrow> string \<Rightarrow> 'f pyval list \<Rightarrow> (string \<times> 'f pyval) list
    \<Rightarrow> ('s, 'f) world \<Rightarrow> (py_error + 'f pyval) \<times> ('s, 'f) world" where
  "execute_kw env model method args kwargs w =
     (case odoo_execute_kw env (remote w) (uid w) model method args kwargs of
        (r, s) \<Rightarrow>
          (r, w\<lparr>remote := s,
                 calls := calls w @ [ExecuteKw (uid w) model method args kwargs]\<rparr>))"

definition create_record ::
  "('s, 'f) env \<Rightarrow> 'f py_builtins \<Rightarrow> string \<Rightarrow> 'f pyval \<Rightarrow> ('s, 'f) world
    \<Rightarrow> 'f pyval \<times> ('s, 'f) world" where
  "create_record env bi model data w =
     (case execute_kw env model ''create'' [data] [] (ensure_uid env bi w) of
        (Inl e, w') \<Rightarrow> (PNone, w')
      | (Inr record_id, w') \<Rightarrow> (record_id, w'))"

definition update_record ::
  "('s, 'f) env \<Rightarrow> 'f py_builtins \<Rightarrow> string \<Rightarrow> 'f pyval \<Rightarrow> 'f pyval \<Rightarrow> ('s, 'f) world
    \<Rightarrow> 'f pyval \<times> ('s, 'f) world" where
  "update_record env bi model record_id data w =
     (case execute_kw env model ''write'' [PList [record_id], data] [] (ensure_uid env bi w) of
        (Inl e, w') \<Rightarrow> (PBool False, w')
      | (Inr result, w') \<Rightarrow> (result, w'))"

text \<open>The two remote calls of \<open>search_records\<close>: the search for ids and the read.\<close>

definition search_step ::
  "('s, 'f) env \<Rightarrow> 'f py_builtins \<Rightarrow> string \<Rightarrow> 'f pyval \<Rightarrow> 'f pyval \<Rightarrow> ('s, 'f) world
    \<Rightarrow> (py_error + 'f pyval) \<times> ('s, 'f) world" where
  "search_step env bi model domain limit w =
     execute_kw env model ''search''
       [if truthy bi domain then domain else PList []]
       (if truthy bi limit then [(''limit'', limit)] else [])
       (ensure_uid env bi w)"

definition read_step ::
  "('s, 'f) env \<Rightarrow> 'f py_builtins \<Rightarrow> string \<Rightarrow> 'f pyval \<Rightarrow> 'f pyval \<Rightarrow> ('s, 'f) world
    \<Rightarrow> (py_error + 'f pyval) \<times> ('s, 'f) world" where
  "read_step env bi model record_ids field_names w =
     execute_kw env model ''read'' [record_ids]
       (if truthy bi field_names then [(''fields'', field_names)] else []) w"

definition search_records ::
  "('s, 'f) env \<Rightarrow> 'f py_builtins \<Rightarrow> string \<Rightarrow> 'f pyval \<Rightarrow> 'f pyval \<Rightarrow> 'f pyval
    \<Rightarrow> ('s, 'f) world \<Rightarrow> 'f pyval \<times> ('s, 'f) world" where
  "search_records env bi model domain field_names limit w =
     (case search_step env bi model domain limit w of
        (Inl e, w1) \<Rightarrow> (PList [], w1)
      | (Inr record_ids, w1) \<Rightarrow>
          if \<not> truthy bi record_ids then (PList [], w1)
          else (case read_step env bi model record_ids field_names w1 of
                  (Inl e, w2) \<Rightarrow> (PList [], w2)
                | (Inr records, w2) \<Rightarrow> (records, w2)))"

definition get_record_by_external_id ::
  "('s, 'f) env \<Rightarrow> 'f py_builtins \<Rightarrow> string \<Rightarrow> 'f pyval \<Rightarrow> ('s, 'f) world
    \<Rightarrow> (py_error + 'f pyval) \<times> ('s, 'f) world" where
  "get_record_by_external_id env bi model external_id w =
     (case search_records env bi model
             (PList [PList [PStr ''x_woo_id'', PStr ''='', external_id]]) PNone (PInt 1) w of
        (records, w') \<Rightarrow>
          (if truthy bi records then py_index0 records else Inr PNone, w'))"

definition customer_odoo_data :: "'f pyval \<Rightarrow> py_error + 'f pyval" where
  "customer_odoo_data customer_data =
     bindE (py_get customer_data ''name'' PNone) (\<lambda>name.
     bindE (py_get customer_data ''email'' PNone) (\<lambda>email.
     bindE (py_get customer_data ''phone'' PNone) (\<lambda>phone.
     bindE (py_get customer_data ''woo_id'' PNone) (\<lambda>woo_id.
       Inr (PDict [(''name'', name), (''email'', email), (''phone'', phone),
                   (''x_woo_id'', woo_id), (''is_company'', PBool False),
                   (''customer_rank'', PInt 1)])))))"

definition create_customer ::
  "('s, 'f) env \<Rightarrow> 'f py_builtins \<Rightarrow> 'f pyval \<Rightarrow> ('s, 'f) world
    \<Rightarrow> (py_error + 'f pyval) \<times> ('s, 'f) world" where
  "create_customer env bi customer_data w =
     (case customer_odoo_data customer_data of
        Inl e \<Rightarrow> (Inl e, w)
      | Inr odoo_data \<Rightarrow>
          (case create_record env bi ''res.partner'' odoo_data w of
             (r, w') \<Rightarrow> (Inr r, w')))"

definition product_odoo_data :: "'f pyval \<Rightarrow> py_error + 'f pyval" where
  "product_odoo_data product_data =
     bindE (py_get product_data ''name'' PNone) (\<lambda>name.
     bindE (py_get product_data ''sku'' PNone) (\<lambda>sku.
     bindE (py_get product_data ''price'' (PInt 0)) (\<lambda>price.
     bindE (py_get product_data ''woo_id'' PNone) (\<lambda>woo_id.
     bindE (py_get product_data ''booking_date'' PNone) (\<lambda>bdate.
     bindE (py_get product_data ''persons'' (PInt 1)) (\<lambda>pers.
     bindE (py_get product_data ''description'' (PStr [])) (\<lambda>descr.
       Inr (PDict [(''name'', name), (''default_code'', sku), (''list_price'', price),
                   (''type'', PStr ''service''), (''sale_ok'', PBool True),
                   (''purchase_ok'', PBool False), (''x_woo_id'', woo_id),
                   (''x_booking_date'', bdate), (''x_persons'', pers),
                   (''description'', descr)]))))))))"

definition create_product ::
  "('s, 'f) env \<Rightarrow> 'f py_builtins \<Rightarrow> 'f pyval \<Rightarrow> ('s, 'f) world
    \<Rightarrow> (py_error + 'f pyval) \<times> ('s, 'f) world" where
  "create_product env bi product_data w =
     (case product_odoo_data product_data of
        Inl e \<Rightarrow> (Inl e, w)
      | Inr odoo_data \<Rightarrow>
          (case create_record env bi ''product.product'' odoo_data w of
             (r, w') \<Rightarrow> (Inr r, w')))"

text \<open>
  The second half of \<open>get_or_create_customer\<close>: the search by email, the write of the
  storefront id on the partner it finds, and the creation when it finds none.
\<close>

definition customer_by_email ::
  "('s, 'f) env \<Rightarrow> 'f py_builtins \<Rightarrow> 'f pyval \<Rightarrow> ('s, 'f) world
    \<Rightarrow> (py_error + 'f pyval) \<times> ('s, 'f) world" where
  "customer_by_email env bi customer_data w =
     (case py_get customer_data ''email'' PNone of
        Inl e \<Rightarrow> (Inl e, w)
      | Inr email \<Rightarrow>
          (case search_records env bi ''res.partner''
                  (PList [PList [PStr ''email'', PStr ''='', email]]) PNone (PInt 1) w of
             (existing, w1) \<Rightarrow>
               if truthy bi existing then
                 (case py_get customer_data ''woo_id'' PNone of
                    Inl e \<Rightarrow> (Inl e, w1)
                  | Inr woo_id \<Rightarrow>
                      if truthy bi woo_id then
                        (case bindE (py_index0 existing) (\<lambda>r. py_getitem r ''id'') of
                           Inl e \<Rightarrow> (Inl e, w1)
                         | Inr partner_id \<Rightarrow>
                             (case update_record env bi ''res.partner'' partner_id
                                     (PDict [(''x_woo_id'', woo_id)]) w1 of
                                (r, w2) \<Rightarrow> (Inr partner_id, w2)))
                      else (bindE (py_index0 existing) (\<lambda>r. py_getitem r ''id''), w1))
               else create_customer env bi customer_data w1))"

definition get_or_create_customer ::
  "('s, 'f) env \<Rightarrow> 'f py_builtins \<Rightarrow> 'f pyval \<Rightarrow> ('s, 'f) world
    \<Rightarrow> (py_error + 'f pyval) \<times> ('s, 'f) world" where
  "get_or_create_customer env bi customer_data w =
     (case py_get customer_data ''woo_id'' PNone of
        Inl e \<Rightarrow> (Inl e, w)
      | Inr woo_id \<Rightarrow>
          if truthy bi woo_id then
            (case get_record_by_external_id env bi ''res.partner''
                    (PStr (py_str bi woo_id)) w of
               (Inl e, w1) \<Rightarrow> (Inl e, w1)
             | (Inr existing, w1) \<Rightarrow>
                 if truthy bi existing then (py_getitem existing ''id'', w1)
                 else customer_by_email env bi customer_data w1)
          else customer_by_email env bi customer_data w)"

definition get_or_create_product ::
  "('s, 'f) env \<Rightarrow> 'f py_builtins \<Rightarrow> 'f pyval \<Rightarrow> ('s, 'f) world
    \<Rightarrow> (py_error + 'f pyval) \<times> ('s, 'f) world" where
  "get_or_create_product env bi product_data w =
     (case py_get product_data ''woo_id'' PNone of
        Inl e \<Rightarrow> (Inl e, w)
      | Inr woo_id \<Rightarrow>
          if truthy bi woo_id then
            (case get_record_by_external_id env bi ''product.product''
                    (PStr (py_str bi woo_id)) w of
               (Inl e, w1) \<Rightarrow> (Inl e, w1)
             | (Inr existing, w1) \<Rightarrow>
                 if truthy bi existing then (py_getitem existing ''id'', w1)
                 else create_product env bi product_data w1)
          else create_product env bi product_data w)"

section \<open>Storefront client: requests\<close>

text \<open>
  \<open>_make_request\<close>: the parsed body for status 200 or 201, \<open>None\<close> for another
  status or a \<open>RequestException\<close>; any other exception propagates.
\<close>

definition make_request ::
  "('s, 'f) env \<Rightarrow> 'f py_builtins \<Rightarrow> string \<Rightarrow> string \<Rightarrow> 'f pyval \<Rightarrow> 'f pyval
    \<Rightarrow> ('s, 'f) world \<Rightarrow> (py_error + 'f pyval) \<times> ('s, 'f) world" where
  "make_request env bi method endpoint data params w =
     (let d = (if truthy bi data then data else PNone);
          q = (if truthy bi params then params else PNone)
      in case woo_request env (remote w) method endpoint d q of
           (r, s) \<Rightarrow>
             (case r of
                Inl e \<Rightarrow> if e = RequestException then Inr PNone else Inl e
              | Inr (status, body) \<Rightarrow>
                  Inr (if status = 200 \<or> status = 201 then body else PNone),
              w\<lparr>remote := s, calls := calls w @ [Request method endpoint d q]\<rparr>))"

definition get_product ::
  "('s, 'f) env \<Rightarrow> 'f py_builtins \<Rightarrow> int \<Rightarrow> ('s, 'f) world
    \<Rightarrow> (py_error + 'f pyval) \<times> ('s, 'f) world" where
  "get_product env bi pid w =
     make_request env bi ''GET'' (''products/'' @ str_of_int pid) PNone PNone w"

definition update_product ::
  "('s, 'f) env \<Rightarrow> 'f py_builtins \<Rightarrow> int \<Rightarrow> 'f pyval \<Rightarrow> ('s, 'f) world
    \<Rightarrow> (py_error + 'f pyval) \<times> ('s, 'f) world" where
  "update_product env bi pid data w =
     make_request env bi ''PUT'' (''products/'' @ str_of_int pid) data PNone w"

section \<open>Sync service\<close>

definition is_space_char :: "char \<Rightarrow> bool" where
  "is_space_char c =
     (let n = code_point c
      in (9 \<le> n \<and> n \<le> 13) \<or> (28 \<le> n \<and> n \<le> 32) \<or> n = 133 \<or> n = 160)"

definition py_strip :: "string \<Rightarrow> string" where
  "py_strip s = rev (dropWhile is_space_char (rev (dropWhile is_space_char s)))"

definition replace_Z :: "string \<Rightarrow> string" where
  "replace_Z s = concat (map (\<lambda>c. if c = CHR ''Z'' then ''+00:00'' else [c]) s)"

definition newline :: string where
  "newline = [CHR 0x0A]"

subsection \<open>Bookings as service products\<close>

definition format_booking_date :: "'f py_builtins \<Rightarrow> 'f pyval \<Rightarrow> py_error + string" where
  "format_booking_date bi d =
     (case d of
        PStr s \<Rightarrow>
          if py_in ''T'' s
          then (case isoformat_minutes bi (replace_Z s) of
                  None \<Rightarrow> Inl ValueError
                | Some t \<Rightarrow> Inr t)
          else Inr s
      | _ \<Rightarrow> Inr (py_str bi d))"

text \<open>The dictionary \<open>product_data\<close> that \<open>sync_booking_to_odoo\<close> builds.\<close>

definition booking_product_data :: "'f py_builtins \<Rightarrow> 'f booking \<Rightarrow> py_error + 'f pyval" where
  "booking_product_data bi b =
     bindE (format_booking_date bi (case booking_date b of None \<Rightarrow> PStr [] | Some v \<Rightarrow> v))
       (\<lambda>formatted_date.
          let n = (case persons b of None \<Rightarrow> 1 | Some k \<Rightarrow> k);
              pname = py_str bi (product_name b) @ '' - '' @ formatted_date
                      @ (if n > 1 then '' ('' @ str_of_int n @ '' personas)'' else [])
          in Inr (PDict
               [(''name'', PStr pname),
                (''sku'', PStr (''BOOKING_'' @ py_str bi (order_id b) @ ''_''
                                @ py_str bi (product_id b))),
                (''price'', PFloat (total_price b)),
                (''woo_id'', PStr (py_str bi (order_id b) @ ''_'' @ py_str bi (product_id b))),
                (''booking_date'', PStr formatted_date),
                (''persons'', PInt n),
                (''description'',
                   PStr (''Clase reservada desde WooCommerce'' @ newline
                         @ ''Orden: #'' @ py_str bi (order_number b) @ newline
                         @ ''Fecha: '' @ formatted_date @ newline
                         @ ''Personas: '' @ str_of_int n))]))"

definition sync_booking_to_odoo ::
  "('s, 'f) env \<Rightarrow> 'f py_builtins \<Rightarrow> 'f booking \<Rightarrow> ('s, 'f) world
    \<Rightarrow> bool \<times> ('s, 'f) world" where
  "sync_booking_to_odoo env bi b w =
     (case booking_product_data bi b of
        Inl e \<Rightarrow> (False, w)
      | Inr product_data \<Rightarrow>
          (case get_or_create_product env bi product_data w of
             (Inl e, w') \<Rightarrow> (False, w')
           | (Inr pid, w') \<Rightarrow> (truthy bi pid, w')))"

fun sync_bookings ::
  "('s, 'f) env \<Rightarrow> 'f py_builtins \<Rightarrow> 'f booking list \<Rightarrow> ('s, 'f) world
    \<Rightarrow> nat \<times> ('s, 'f) world" where
  "sync_bookings env bi [] w = (0, w)"
| "sync_bookings env bi (b # bs) w =
     (case sync_booking_to_odoo env bi b w of
        (ok, w1) \<Rightarrow>
          (case sync_bookings env bi bs w1 of
             (n, w2) \<Rightarrow> ((if ok then 1 else 0) + n, w2)))"

subsection \<open>Sale orders\<close>

definition order_customer_data :: "'f py_builtins \<Rightarrow> 'f pyval \<Rightarrow> py_error + 'f pyval" where
  "order_customer_data bi woo_order =
     bindE (py_get woo_order ''customer_id'' PNone) (\<lambda>cid.
     bindE (bindE (py_get woo_order ''billing'' (PDict [])) (\<lambda>b. py_get b ''email'' PNone))
       (\<lambda>email.
     bindE (bindE (py_get woo_order ''billing'' (PDict []))
              (\<lambda>b. py_get b ''first_name'' (PStr []))) (\<lambda>first.
     bindE (bindE (py_get woo_order ''billing'' (PDict []))
              (\<lambda>b. py_get b ''last_name'' (PStr []))) (\<lambda>last.
     bindE (bindE (py_get woo_order ''billing'' (PDict [])) (\<lambda>b. py_get b ''phone'' PNone))
       (\<lambda>phone.
       Inr (PDict [(''id'', cid), (''email'', email),
                   (''name'', PStr (py_strip (py_str bi first @ '' '' @ py_str bi last))),
                   (''phone'', phone), (''woo_id'', cid)]))))))"

definition sale_order_data ::
  "'f py_builtins \<Rightarrow> 'f pyval \<Rightarrow> 'f pyval \<Rightarrow> py_error + 'f pyval" where
  "sale_order_data bi partner_id woo_order =
     bindE (py_get woo_order ''id'' PNone) (\<lambda>oid.
     bindE (py_get woo_order ''number'' PNone) (\<lambda>num.
     bindE (py_get woo_order ''date_created'' PNone) (\<lambda>created.
     bindE (py_get woo_order ''total'' PNone) (\<lambda>tot.
       Inr (PDict [(''partner_id'', partner_id), (''x_woo_order_id'', oid),
                   (''origin'', PStr (''WooCommerce #'' @ py_str bi num)),
                   (''date_order'', created), (''state'', PStr ''draft''),
                   (''note'',
                      PStr (''Orden importada desde WooCommerce'' @ newline
                            @ ''Fecha original: '' @ py_str bi created @ newline
                            @ ''Total WC: '' @ py_str bi tot))])))))"

text \<open>\<open>total / quantity\<close>, the left operand being a float.\<close>

fun py_truediv :: "'f py_builtins \<Rightarrow> 'f \<Rightarrow> 'f pyval \<Rightarrow> py_error + 'f" where
  "py_truediv bi x (PInt n) =
     (if n = 0 then Inl ZeroDivisionError
      else (case float_of_int bi n of
              None \<Rightarrow> Inl OverflowError
            | Some y \<Rightarrow> Inr (float_truediv bi x y)))"
| "py_truediv bi x (PBool b) =
     (if \<not> b then Inl ZeroDivisionError
      else (case float_of_int bi 1 of
              None \<Rightarrow> Inl OverflowError
            | Some y \<Rightarrow> Inr (float_truediv bi x y)))"
| "py_truediv bi x (PFloat y) =
     (if float_is_zero bi y then Inl ZeroDivisionError else Inr (float_truediv bi x y))"
| "py_truediv bi x v = Inl TypeError"

text \<open>The dictionary \<open>line_data\<close> of one order line.\<close>

definition line_data ::
  "'f py_builtins \<Rightarrow> 'f pyval \<Rightarrow> 'f pyval \<Rightarrow> 'f booking \<Rightarrow> py_error + 'f pyval" where
  "line_data bi sale_order_id product b =
     bindE (py_getitem product ''id'') (\<lambda>pid.
     bindE (py_truediv bi (total_price b) (quantity b)) (\<lambda>price_unit.
       Inr (PDict [(''order_id'', sale_order_id), (''product_id'', pid),
                   (''product_uom_qty'', quantity b),
                   (''price_unit'', PFloat price_unit)])))"

text \<open>The body of the loop over the bookings in \<open>create_sale_order_in_odoo\<close>.\<close>

definition order_line ::
  "('s, 'f) env \<Rightarrow> 'f py_builtins \<Rightarrow> 'f pyval \<Rightarrow> 'f booking \<Rightarrow> ('s, 'f) world
    \<Rightarrow> (py_error + unit) \<times> ('s, 'f) world" where
  "order_line env bi sale_order_id b w =
     (case get_record_by_external_id env bi ''product.product''
             (PStr (py_str bi (order_id b) @ ''_'' @ py_str bi (product_id b))) w of
        (Inl e, w1) \<Rightarrow> (Inl e, w1)
      | (Inr product, w1) \<Rightarrow>
          if truthy bi product then
            (case line_data bi sale_order_id product b of
               Inl e \<Rightarrow> (Inl e, w1)
             | Inr ld \<Rightarrow>
                 (case create_record env bi ''sale.order.line'' ld w1 of
                    (line_id, w2) \<Rightarrow> (Inr (), w2)))
          else (Inr (), w1))"

fun order_lines ::
  "('s, 'f) env \<Rightarrow> 'f py_builtins \<Rightarrow> 'f pyval \<Rightarrow> 'f booking list \<Rightarrow> ('s, 'f) world
    \<Rightarrow> (py_error + unit) \<times> ('s, 'f) world" where
  "order_lines env bi sale_order_id [] w = (Inr (), w)"
| "order_lines env bi sale_order_id (b # bs) w =
     (case order_line env bi sale_order_id b w of
        (Inl e, w1) \<Rightarrow> (Inl e, w1)
      | (Inr u, w1) \<Rightarrow> order_lines env bi sale_order_id bs w1)"

definition create_sale_order_in_odoo ::
  "('s, 'f) env \<Rightarrow> 'f py_builtins \<Rightarrow> 'f pyval \<Rightarrow> 'f booking list \<Rightarrow> ('s, 'f) world
    \<Rightarrow> 'f pyval \<times> ('s, 'f) world" where
  "create_sale_order_in_odoo env bi woo_order bookings w =
     (case order_customer_data bi woo_order of
        Inl e \<Rightarrow> (PNone, w)
      | Inr customer_data \<Rightarrow>
          (case get_or_create_customer env bi customer_data w of
             (Inl e, w1) \<Rightarrow> (PNone, w1)
           | (Inr partner_id, w1) \<Rightarrow>
               if \<not> truthy bi partner_id then (PNone, w1)
               else
                 (case sale_order_data bi partner_id woo_order of
                    Inl e \<Rightarrow> (PNone, w1)
                  | Inr order_data \<Rightarrow>
                      (case create_record env bi ''sale.order'' order_data w1 of
                         (sale_order_id, w2) \<Rightarrow>
                           if \<not> truthy bi sale_order_id then (PNone, w2)
                           else
                             (case order_lines env bi sale_order_id bookings w2 of
                                (Inl e, w3) \<Rightarrow> (PNone, w3)
                              | (Inr u, w3) \<Rightarrow> (sale_order_id, w3))))))"

definition update_data ::
  "'f py_builtins \<Rightarrow> string \<Rightarrow> 'f pyval \<Rightarrow> py_error + 'f pyval" where
  "update_data bi now woo_order =
     bindE (py_get woo_order ''total'' PNone) (\<lambda>tot.
     bindE (py_get woo_order ''status'' PNone) (\<lambda>woo_status.
       Inr (PDict
         ((''note'',
             PStr (''Orden actualizada desde WooCommerce'' @ newline
                   @ [CHR 0xDA] @ ''ltima actualizaci'' @ [CHR 0xF3] @ ''n: '' @ now @ newline
                   @ ''Total WC: '' @ py_str bi tot))
          # (if woo_status = PStr ''completed'' then [(''state'', PStr ''sale'')]
             else if woo_status = PStr ''cancelled'' then [(''state'', PStr ''cancel'')]
             else [])))))"

definition update_existing_order ::
  "('s, 'f) env \<Rightarrow> 'f py_builtins \<Rightarrow> 'f pyval \<Rightarrow> 'f pyval \<Rightarrow> ('s, 'f) world
    \<Rightarrow> bool \<times> ('s, 'f) world" where
  "update_existing_order env bi existing_order woo_order w =
     (case bindE (py_getitem existing_order ''id'') (\<lambda>sale_order_id.
           bindE (update_data bi (now_isoformat env (remote w)) woo_order) (\<lambda>ud.
             Inr (sale_order_id, ud))) of
        Inl e \<Rightarrow> (False, w)
      | Inr (sale_order_id, ud) \<Rightarrow>
          (case update_record env bi ''sale.order'' sale_order_id ud w of
             (result, w') \<Rightarrow> (truthy bi result, w')))"

text \<open>
  Every exception of the body of \<open>process_woo_order\<close> is caught and gives \<open>False\<close>.
  The handler itself formats its message with \<open>order_data.get\<close>, so when the payload
  is no dictionary (the first \<open>order_data.get\<close> of the body has raised) the handler
  raises again and the exception leaves the function.
\<close>

definition process_woo_order ::
  "('s, 'f) env \<Rightarrow> 'f py_builtins \<Rightarrow> 'f pyval \<Rightarrow> ('s, 'f) world
    \<Rightarrow> (py_error + bool) \<times> ('s, 'f) world" where
  "process_woo_order env bi order_data w =
     (case py_get order_data ''id'' PNone of
        Inl e \<Rightarrow> (Inl e, w)
      | Inr oid \<Rightarrow>
          (case search_records env bi ''sale.order''
                  (PList [PList [PStr ''x_woo_order_id'', PStr ''='', PStr (py_str bi oid)]])
                  PNone (PInt 1) w of
             (existing_order, w1) \<Rightarrow>
               if truthy bi existing_order then
                 (case py_index0 existing_order of
                    Inl e \<Rightarrow> (Inr False, w1)
                  | Inr first \<Rightarrow>
                      (case update_existing_order env bi first order_data w1 of
                         (r, w2) \<Rightarrow> (Inr r, w2)))
               else
                 (case extract_booking_data bi order_data of
                    Inl e \<Rightarrow> (Inr False, w1)
                  | Inr bookings \<Rightarrow>
                      if bookings = [] then (Inr False, w1)
                      else
                        (case sync_bookings env bi bookings w1 of
                           (success_count, w2) \<Rightarrow>
                             if success_count > 0 then
                               (case create_sale_order_in_odoo env bi order_data bookings w2 of
                                  (r, w3) \<Rightarrow> (Inr True, w3))
                             else (Inr False, w2)))))"

subsection \<open>Reverse sync of one product\<close>

definition product_update_data :: "'f py_builtins \<Rightarrow> 'f pyval \<Rightarrow> py_error + 'f pyval" where
  "product_update_data bi odoo_product =
     bindE (py_getitem odoo_product ''name'') (\<lambda>name.
     bindE (py_getitem odoo_product ''list_price'') (\<lambda>price.
     bindE (py_get odoo_product ''description'' (PStr [])) (\<lambda>descr.
     bindE (py_get odoo_product ''default_code'' (PStr [])) (\<lambda>sku.
       Inr (PDict [(''name'', name), (''regular_price'', PStr (py_str bi price)),
                   (''description'', descr), (''sku'', sku)])))))"

definition sync_product_to_woo ::
  "('s, 'f) env \<Rightarrow> 'f py_builtins \<Rightarrow> 'f pyval \<Rightarrow> ('s, 'f) world
    \<Rightarrow> bool \<times> ('s, 'f) world" where
  "sync_product_to_woo env bi odoo_product w =
     (case py_get odoo_product ''x_woo_id'' PNone of
        Inl e \<Rightarrow> (False, w)
      | Inr woo_id \<Rightarrow>
          if truthy bi woo_id \<and> woo_id \<noteq> PStr ''False'' then
            (case py_int bi woo_id of
               Inl e \<Rightarrow> (False, w)
             | Inr n \<Rightarrow>
                 (case get_product env bi n w of
                    (Inl e, w1) \<Rightarrow> (False, w1)
                  | (Inr existing_product, w1) \<Rightarrow>
                      if truthy bi existing_product then
                        (case product_update_data bi odoo_product of
                           Inl e \<Rightarrow> (False, w1)
                         | Inr ud \<Rightarrow>
                             (case update_product env bi n ud w1 of
                                (Inl e, w2) \<Rightarrow> (False, w2)
                              | (Inr result, w2) \<Rightarrow> (truthy bi result, w2)))
                      else (False, w1)))
          else (False, w))"

section \<open>Remote calls that change something\<close>

text \<open>
  A remote call is a lookup when it is the authentication, an ERP \<open>search\<close> or
  \<open>read\<close>, or a storefront \<open>GET\<close>; every other call (\<open>create\<close>, \<open>write\<close>,
  \<open>PUT\<close>, \<open>POST\<close>) is a mutation. \<open>calls_since w w'\<close> are the calls made between
  two worlds.
\<close>

fun is_lookup_call :: "'f call \<Rightarrow> bool" where
  "is_lookup_call Authenticate = True"
| "is_lookup_call (ExecuteKw u model method args kwargs) =
     (method = ''search'' \<or> method = ''read'')"
| "is_lookup_call (Request method endpoint d q) = (method = ''GET'')"

definition mutations :: "'f call list \<Rightarrow> 'f call list" where
  "mutations cs = filter (\<lambda>c. \<not> is_lookup_call c) cs"

definition calls_since :: "('s, 'f) world \<Rightarrow> ('s, 'f) world \<Rightarrow> 'f call list" where
  "calls_since w w' = drop (length (calls w)) (calls w')"

fun is_list :: "'f pyval \<Rightarrow> bool" where
  "is_list (PList xs) = True"
| "is_list v = False"

text \<open>
  The ERP's \<open>read\<close> answers with a list of records whenever it answers at all: this
  is the contract of the remote interface, stated here because the client returns the
  answer as it comes.
\<close>

definition read_answers_lists :: "('s, 'f) env \<Rightarrow> bool" where
  "read_answers_lists env =
     (\<forall>s u model args kwargs.
        case fst (odoo_execute_kw env s u model ''read'' args kwargs) of
          Inl e \<Rightarrow> True
        | Inr v \<Rightarrow> is_list v)"

section \<open>Payloads without metadata, and with all fields\<close>

definition keyless :: "'f pyval \<Rightarrow> bool" where
  "keyless m = (case m of PDict kvs \<Rightarrow> map_of kvs ''key'' = None | _ \<Rightarrow> False)"

definition no_metadata_keys :: "'f pyval \<Rightarrow> bool" where
  "no_metadata_keys item =
     (case py_get item ''meta_data'' (PList []) of
        Inr (PList ms) \<Rightarrow> list_all keyless ms
      | _ \<Rightarrow> False)"

definition has_key :: "'f pyval \<Rightarrow> string \<Rightarrow> bool" where
  "has_key d k = (case py_getitem d k of Inr v \<Rightarrow> True | Inl e \<Rightarrow> False)"

definition order_fields_present :: "'f pyval \<Rightarrow> bool" where
  "order_fields_present order =
     (has_key order ''id'' \<and> has_key order ''number'' \<and> has_key order ''customer_id''
      \<and> has_key order ''date_created''
      \<and> (case py_getitem order ''billing'' of
            Inr b \<Rightarrow> has_key b ''email'' \<and> has_key b ''first_name''
                     \<and> has_key b ''last_name'' \<and> has_key b ''phone''
          | Inl e \<Rightarrow> False))"

definition item_fields_present :: "'f py_builtins \<Rightarrow> 'f pyval \<Rightarrow> bool" where
  "item_fields_present bi item =
     (has_key item ''product_id'' \<and> has_key item ''name'' \<and> has_key item ''quantity''
      \<and> (case bindE (py_getitem item ''total'') (py_float bi) of
            Inr x \<Rightarrow> True
          | Inl e \<Rightarrow> False))"

section \<open>Stand-ins for the builtins and the remote systems\<close>

text \<open>
  To run the definitions on concrete payloads, floats are read as rationals: exact on
  the short decimal literals and the integral values used below (a literal is an
  unsigned run of digits with at most one point). The date stand-in cuts
  \<open>YYYY-MM-DDTHH:MM...\<close> down to minutes.
\<close>

definition decimal_of_str :: "string \<Rightarrow> rat option" where
  "decimal_of_str s =
     (let a = takeWhile (\<lambda>c. c \<noteq> CHR ''.'') s; b = drop (length a + 1) s
      in if a @ b \<noteq> [] \<and> list_all is_decimal_char (a @ b)
         then Some (of_int (foldl (\<lambda>acc c. acc * 10 + digit_value c) 0 (a @ b))
                    / 10 ^ length b)
         else None)"

definition demo_builtins :: "rat py_builtins" where
  "demo_builtins =
     \<lparr>float_of_str = decimal_of_str,
      float_of_int = (\<lambda>n. Some (of_int n)),
      float_truediv = (\<lambda>x y. x / y),
      float_is_zero = (\<lambda>x. x = 0),
      float_trunc = (\<lambda>x. Inr (if 0 \<le> x then \<lfloor>x\<rfloor> else \<lceil>x\<rceil>)),
      float_repr = (\<lambda>x. str_of_int \<lfloor>x\<rfloor> @ ''.0''),
      container_repr_tail = (\<lambda>v. '']''),
      isoformat_minutes =
        (\<lambda>s. if 16 \<le> length s \<and> s ! 10 = CHR ''T''
             then Some (take 10 s @ '' '' @ take 5 (drop 11 s)) else None)\<rparr>"

text \<open>
  A remote side without state: the ERP answers by method and arguments, the
  storefront by method and endpoint; the session id is 2 and the clock stands still.
\<close>

definition stub_env ::
  "(string \<Rightarrow> 'f pyval list \<Rightarrow> py_error + 'f pyval)
    \<Rightarrow> (string \<Rightarrow> string \<Rightarrow> py_error + int \<times> 'f pyval) \<Rightarrow> (unit, 'f) env" where
  "stub_env rpc http =
     \<lparr>odoo_authenticate = (\<lambda>s. (Inr (PInt 2), s)),
      odoo_execute_kw = (\<lambda>s u model method args kwargs. (rpc method args, s)),
      woo_request = (\<lambda>s method endpoint d q. (http method endpoint, s)),
      now_isoformat = (\<lambda>s. ''2024-05-01T10:00:00'')\<rparr>"

definition fresh_world :: "(unit, 'f) world" where
  "fresh_world = \<lparr>remote = (), uid = PNone, calls = []\<rparr>"

text \<open>An ERP in which every search finds the record 1, and a storefront that is down.\<close>

definition found_rpc :: "string \<Rightarrow> 'f pyval list \<Rightarrow> py_error + 'f pyval" where
  "found_rpc method args =
     (if method = ''search'' then Inr (PList [PInt 1])
      else if method = ''read'' then Inr (PList [PDict [(''id'', PInt 1)]])
      else if method = ''create'' then Inr (PInt 10)
      else if method = ''write'' then Inr (PBool True)
      else Inl RpcFault)"

definition down_rpc :: "string \<Rightarrow> 'f pyval list \<Rightarrow> py_error + 'f pyval" where
  "down_rpc method args = Inl RpcFault"

definition no_http :: "string \<Rightarrow> string \<Rightarrow> py_error + int \<times> 'f pyval" where
  "no_http method endpoint = Inl RequestException"

definition demo_customer :: "rat pyval" where
  "demo_customer =
     PDict [(''name'', PStr ''Ana Ruiz''), (''email'', PStr ''ana@example.com''),
            (''phone'', PStr ''555-0100''), (''woo_id'', PInt 42)]"

definition demo_product :: "rat pyval" where
  "demo_product =
     PDict [(''name'', PStr ''Aquafit - 2024-05-01 10:00''), (''sku'', PStr ''BOOKING_100_7''),
            (''price'', PFloat 50), (''woo_id'', PStr ''100_7''),
            (''booking_date'', PStr ''2024-05-01 10:00''), (''persons'', PInt 1),
            (''description'', PStr ''Clase'')]"

definition demo_order_555 :: "rat pyval" where
  "demo_order_555 =
     PDict [(''id'', PInt 555), (''number'', PStr ''555''), (''status'', PStr ''completed''),
            (''total'', PStr ''50.00'')]"

text \<open>
  An ERP holding one partner, id 1, with the email \<open>ana@example.com\<close> and the storefront
  id 5: a search on \<open>x_woo_id\<close> for another id finds nothing, a search on the email
  finds the partner.
\<close>

definition clash_rpc :: "string \<Rightarrow> rat pyval list \<Rightarrow> py_error + rat pyval" where
  "clash_rpc method args =
     (if method = ''search'' then
        (if args = [PList [PList [PStr ''email'', PStr ''='', PStr ''ana@example.com'']]]
            \<or> args = [PList [PList [PStr ''x_woo_id'', PStr ''='', PStr ''5'']]]
         then Inr (PList [PInt 1]) else Inr (PList []))
      else if method = ''read'' then
        Inr (PList [PDict [(''id'', PInt 1), (''email'', PStr ''ana@example.com''),
                           (''x_woo_id'', PStr ''5'')]])
      else if method = ''write'' then Inr (PBool True)
      else if method = ''create'' then Inr (PInt 10)
      else Inl RpcFault)"

definition clash_customer :: "rat pyval" where
  "clash_customer =
     PDict [(''name'', PStr ''Ana Ruiz''), (''email'', PStr ''ana@example.com''),
            (''phone'', PStr ''555-0100''), (''woo_id'', PInt 9)]"

definition demo_booking :: "rat booking" where
  "demo_booking =
     \<lparr>order_id = PInt 100, order_number = PStr ''100'', product_id = PInt 7,
      product_name = PStr ''Aquafit'', quantity = PInt 1, total_price = 50,
      customer_id = PInt 42, customer_email = PStr ''ana@example.com'',
      customer_name = ''Ana Ruiz'', customer_phone = PStr ''555-0100'',
      booking_date = Some (PStr ''2024-05-01T10:00:00''), persons = Some 1,
      duration = None, booking_end = None\<rparr>"

text \<open>An ERP that holds nothing.\<close>

definition empty_rpc :: "string \<Rightarrow> 'f pyval list \<Rightarrow> py_error + 'f pyval" where
  "empty_rpc method args =
     (if method = ''search'' then Inr (PList [])
      else if method = ''create'' then Inr (PInt 10)
      else if method = ''write'' then Inr (PBool True)
      else Inl RpcFault)"

text \<open>Order 42: one line item (product 9, quantity 1, total 50.00), no metadata.\<close>

definition demo_order_42 :: "rat pyval" where
  "demo_order_42 =
     PDict [(''id'', PInt 42), (''number'', PStr ''42''), (''status'', PStr ''processing''),
            (''customer_id'', PInt 3), (''date_created'', PStr ''2024-04-30T18:25:43''),
            (''total'', PStr ''50.00''),
            (''billing'',
               PDict [(''email'', PStr ''ana@example.com''), (''first_name'', PStr ''Ana''),
                      (''last_name'', PStr ''Ruiz''), (''phone'', PStr ''555-0100'')]),
            (''line_items'',
               PList [PDict [(''product_id'', PInt 9), (''name'', PStr ''Aquafit''),
                             (''quantity'', PInt 1), (''total'', PStr ''50.00''),
                             (''meta_data'', PList [])]])]"

text \<open>
  Order 43: as order 42, with the metadata entry \<open>Persons\<close> whose value is the one
  character superscript two (code point 178).
\<close>

definition superscript_order :: "rat pyval" where
  "superscript_order =
     PDict [(''id'', PInt 43), (''number'', PStr ''43''), (''status'', PStr ''processing''),
            (''customer_id'', PInt 3), (''date_created'', PStr ''2024-04-30T18:25:43''),
            (''total'', PStr ''50.00''),
            (''billing'',
               PDict [(''email'', PStr ''ana@example.com''), (''first_name'', PStr ''Ana''),
                      (''last_name'', PStr ''Ruiz''), (''phone'', PStr ''555-0100'')]),
            (''line_items'',
               PList [PDict [(''product_id'', PInt 9), (''name'', PStr ''Aquafit''),
                             (''quantity'', PInt 1), (''total'', PStr ''50.00''),
                             (''meta_data'',
                                PList [PDict [(''key'', PStr ''Persons''),
                                              (''value'', PStr [CHR 0xB2])]])]])]"

text \<open>
  A storefront with one product, number 1007; an ERP product minted by the booking
  sync for order 100 and product 7; and an ERP product whose storefront id is no
  number.
\<close>

definition shop_http :: "string \<Rightarrow> string \<Rightarrow> py_error + int \<times> rat pyval" where
  "shop_http method endpoint =
     (if endpoint = ''products/1007''
      then Inr (200, PDict [(''id'', PInt 1007), (''name'', PStr ''Yoga mat'')])
      else Inr (404, PNone))"

definition bridge_product :: "rat pyval" where
  "bridge_product =
     PDict [(''id'', PInt 10), (''name'', PStr ''Aquafit - 2024-05-01 10:00''),
            (''default_code'', PStr ''BOOKING_100_7''), (''list_price'', PFloat 50),
            (''x_woo_id'', PStr ''100_7''), (''description'', PStr ''Clase'')]"

definition unparseable_product :: "rat pyval" where
  "unparseable_product =
     PDict [(''id'', PInt 11), (''name'', PStr ''Mat''), (''list_price'', PFloat 50),
            (''x_woo_id'', PStr ''n/a'')]"

text \<open>
  The same stand-in, with the conversion of an integer to a float failing where a
  double overflows (from \<open>2 ^ 1024 - 2 ^ 970\<close> on, in absolute value), and a quantity
  beyond that bound.
\<close>

definition double_overflow_bound :: int where
  "double_overflow_bound = 2 ^ 1024 - 2 ^ 970"

definition bounded_builtins :: "rat py_builtins" where
  "bounded_builtins =
     demo_builtins
       \<lparr>float_of_int :=
          (\<lambda>n. if \<bar>n\<bar> < double_overflow_bound then Some (of_int n) else None)\<rparr>"

definition huge_quantity :: int where
  "huge_quantity = 10 ^ 400"

text \<open>A world with the session open, and the model a call is made on.\<close>

definition session_world :: "(unit, rat) world" where
  "session_world = \<lparr>remote = (), uid = PInt 2, calls = []\<rparr>"

definition model_of_call :: "'f call \<Rightarrow> string" where
  "model_of_call c = (case c of ExecuteKw u model method args kwargs \<Rightarrow> model | _ \<Rightarrow> [])"

section \<open>Lookups never change the ERP\<close>

lemma calls_since_append: "calls w' = calls w @ cs \<Longrightarrow> calls_since w w' = cs"
  by (simp add: calls_since_def)

lemma mutations_append [simp]: "mutations (xs @ ys) = mutations xs @ mutations ys"
  by (simp add: mutations_def)

lemma mutations_Nil [simp]: "mutations [] = []"
  by (simp add: mutations_def)

lemma ensure_uid_calls:
  "\<exists>cs. calls (ensure_uid env bi w) = calls w @ cs \<and> mutations cs = []"
  by (auto simp: ensure_uid_def authenticate_def mutations_def split: prod.splits sum.splits)

lemma execute_kw_calls:
  "execute_kw env model method args kwargs w = (r, w') \<Longrightarrow>
     calls w' = calls w @ [ExecuteKw (uid w) model method args kwargs]"
  by (auto simp: execute_kw_def split: prod.splits)

lemma search_records_calls:
  assumes "search_records env bi model domain fs limit w = (r, w')"
  shows "\<exists>cs. calls w' = calls w @ cs \<and> mutations cs = []"
proof -
  obtain c0 where c0: "calls (ensure_uid env bi w) = calls w @ c0" "mutations c0 = []"
    using ensure_uid_calls by blast
  show ?thesis
    using assms c0
    by (auto simp: search_records_def search_step_def read_step_def mutations_def
             split: prod.splits sum.splits if_splits dest!: execute_kw_calls)
qed

lemma get_record_by_external_id_calls:
  assumes "get_record_by_external_id env bi model ext w = (r, w')"
  shows "\<exists>cs. calls w' = calls w @ cs \<and> mutations cs = []"
  using assms
  by (auto simp: get_record_by_external_id_def split: prod.splits dest: search_records_calls)

lemma update_record_calls:
  assumes "update_record env bi model rid data w = (r, w')"
  shows "\<exists>cs. calls w' = calls w @ cs
           \<and> mutations cs = [ExecuteKw (uid (ensure_uid env bi w)) model ''write''
                               [PList [rid], data] []]"
proof -
  obtain c0 where c0: "calls (ensure_uid env bi w) = calls w @ c0" "mutations c0 = []"
    using ensure_uid_calls by blast
  show ?thesis
    using assms c0
    by (auto simp: update_record_def mutations_def split: prod.splits sum.splits
             dest!: execute_kw_calls)
qed

lemma create_record_calls:
  assumes "create_record env bi model data w = (r, w')"
  shows "\<exists>cs. calls w' = calls w @ cs
           \<and> mutations cs = [ExecuteKw (uid (ensure_uid env bi w)) model ''create'' [data] []]"
proof -
  obtain c0 where c0: "calls (ensure_uid env bi w) = calls w @ c0" "mutations c0 = []"
    using ensure_uid_calls by blast
  show ?thesis
    using assms c0
    by (auto simp: create_record_def mutations_def split: prod.splits sum.splits
             dest!: execute_kw_calls)
qed

lemmas stub_run_defs =
  get_record_by_external_id_def search_records_def search_step_def read_step_def
  execute_kw_def ensure_uid_def
  authenticate_def create_record_def update_record_def stub_env_def found_rpc_def
  fresh_world_def demo_builtins_def

section \<open>Customer upsert\<close>

text \<open>
  C3. A customer whose storefront id is present and whose lookup by external id finds
  a partner: the upsert returns that partner's id, and between the two worlds only
  lookups were made (no \<open>create\<close>, no \<open>write\<close>). This holds in every world in which
  the lookup finds the partner, so also when the same payload is processed again.
\<close>

theorem customer_upsert_idempotent:
  assumes "py_get customer_data ''woo_id'' PNone = Inr woo_id"
    and "truthy bi woo_id"
    and "get_record_by_external_id env bi ''res.partner'' (PStr (py_str bi woo_id)) w
           = (Inr partner, w1)"
    and "truthy bi partner"
    and "py_getitem partner ''id'' = Inr partner_id"
  shows "get_or_create_customer env bi customer_data w = (Inr partner_id, w1)
         \<and> mutations (calls_since w w1) = []"
proof -
  have "get_or_create_customer env bi customer_data w = (Inr partner_id, w1)"
    using assms by (simp add: get_or_create_customer_def)
  moreover have "mutations (calls_since w w1) = []"
    using get_record_by_external_id_calls [OF assms(3)] by (auto dest: calls_since_append)
  ultimately show ?thesis by simp
qed

theorem customer_upsert_idempotent_witness:
  "get_or_create_customer (stub_env found_rpc no_http) demo_builtins demo_customer fresh_world
     = (Inr (PInt 1),
        snd (get_record_by_external_id (stub_env found_rpc no_http) demo_builtins
               ''res.partner'' (PStr ''42'') fresh_world))
   \<and> mutations (calls_since fresh_world
        (snd (get_record_by_external_id (stub_env found_rpc no_http) demo_builtins
                ''res.partner'' (PStr ''42'') fresh_world))) = []"
proof -
  let ?env = "stub_env found_rpc no_http :: (unit, rat) env"
  let ?w1 = "snd (get_record_by_external_id ?env demo_builtins ''res.partner''
                    (PStr ''42'') fresh_world)"
  have a: "py_get demo_customer ''woo_id'' PNone = Inr (PInt 42)"
    by (simp add: demo_customer_def)
  have b: "truthy demo_builtins (PInt 42 :: rat pyval)"
    by simp
  have c: "get_record_by_external_id ?env demo_builtins ''res.partner''
             (PStr (py_str demo_builtins (PInt 42))) fresh_world
           = (Inr (PDict [(''id'', PInt 1)]), ?w1)"
    by (simp add: stub_run_defs str_of_int_def str_of_nat.simps)
  have d: "truthy demo_builtins (PDict [(''id'', PInt 1 :: rat pyval)])"
    by simp
  have e: "py_getitem (PDict [(''id'', PInt 1 :: rat pyval)]) ''id'' = Inr (PInt 1)"
    by simp
  show ?thesis
    using customer_upsert_idempotent [OF a b c d e] by simp
qed

section \<open>Product upsert\<close>

text \<open>
  C7. A product whose external id is present: when the lookup by external id finds a
  record, the upsert returns the \<open>id\<close> of that record and has made lookups only, so
  no field of any ERP record was written; when the lookup finds nothing, the upsert
  is the creation of a new product.
\<close>

theorem product_upsert_never_updates:
  assumes "py_get product_data ''woo_id'' PNone = Inr woo_id"
    and "truthy bi woo_id"
    and "get_record_by_external_id env bi ''product.product'' (PStr (py_str bi woo_id)) w
           = (Inr existing, w1)"
  shows "(truthy bi existing \<longrightarrow>
            get_or_create_product env bi product_data w = (py_getitem existing ''id'', w1)
            \<and> mutations (calls_since w w1) = [])
         \<and> (\<not> truthy bi existing \<longrightarrow>
            get_or_create_product env bi product_data w
              = create_product env bi product_data w1)"
proof -
  have "mutations (calls_since w w1) = []"
    using get_record_by_external_id_calls [OF assms(3)] by (auto dest: calls_since_append)
  then show ?thesis
    using assms by (simp add: get_or_create_product_def)
qed

theorem product_upsert_never_updates_witness:
  "get_or_create_product (stub_env found_rpc no_http) demo_builtins demo_product fresh_world
     = (Inr (PInt 1),
        snd (get_record_by_external_id (stub_env found_rpc no_http) demo_builtins
               ''product.product'' (PStr ''100_7'') fresh_world))
   \<and> mutations (calls_since fresh_world
        (snd (get_record_by_external_id (stub_env found_rpc no_http) demo_builtins
                ''product.product'' (PStr ''100_7'') fresh_world))) = []"
proof -
  let ?env = "stub_env found_rpc no_http :: (unit, rat) env"
  let ?w1 = "snd (get_record_by_external_id ?env demo_builtins ''product.product''
                    (PStr ''100_7'') fresh_world)"
  have a: "py_get demo_product ''woo_id'' PNone = Inr (PStr ''100_7'')"
    by (simp add: demo_product_def)
  have b: "truthy demo_builtins (PStr ''100_7'' :: rat pyval)"
    by simp
  have c: "get_record_by_external_id ?env demo_builtins ''product.product''
             (PStr (py_str demo_builtins (PStr ''100_7''))) fresh_world
           = (Inr (PDict [(''id'', PInt 1)]), ?w1)"
    by (simp add: stub_run_defs)
  have d: "truthy demo_builtins (PDict [(''id'', PInt 1 :: rat pyval)])"
    by simp
  show ?thesis
    using product_upsert_never_updates [OF a b c] d by simp
qed

section \<open>Searching the ERP\<close>

lemma read_step_list:
  assumes "read_answers_lists env"
    and "read_step env bi model ids fs w = (Inr v, w')"
  shows "is_list v"
proof -
  have "fst (odoo_execute_kw env (remote w) (uid w) model ''read'' [ids]
               (if truthy bi fs then [(''fields'', fs)] else [])) = Inr v"
    using assms(2) by (auto simp: read_step_def execute_kw_def split: prod.splits)
  with assms(1) show ?thesis
    unfolding read_answers_lists_def by (metis old.sum.simps(6))
qed

lemma search_records_is_list:
  assumes "read_answers_lists env"
  shows "is_list (fst (search_records env bi model domain fs limit w))"
proof (cases "search_step env bi model domain limit w")
  case (Pair r w1)
  show ?thesis
  proof (cases r)
    case (Inl e)
    with Pair show ?thesis by (simp add: search_records_def)
  next
    case (Inr ids)
    show ?thesis
    proof (cases "truthy bi ids")
      case False
      with Pair Inr show ?thesis by (simp add: search_records_def)
    next
      case True
      obtain r2 w2 where rd: "read_step env bi model ids fs w1 = (r2, w2)"
        by fastforce
      show ?thesis
      proof (cases r2)
        case (Inl e)
        with Pair Inr True rd show ?thesis by (simp add: search_records_def)
      next
        case r2: (Inr recs)
        have "is_list recs"
          using read_step_list [OF assms] rd r2 by blast
        with Pair Inr True rd r2 show ?thesis by (simp add: search_records_def)
      qed
    qed
  qed
qed

text \<open>
  C8. Whatever the model, filter, fields and limit: \<open>search_records\<close> returns a list
  (given that the ERP's \<open>read\<close> answers with lists), and it returns the empty list when
  the search raises, when the search finds no id, and when the read raises. The
  caller sees the same empty list in the three cases.
\<close>

theorem search_records_returns_sequence:
  assumes "read_answers_lists env"
  shows "is_list (fst (search_records env bi model domain fs limit w))
    \<and> (\<forall>e w1. search_step env bi model domain limit w = (Inl e, w1)
          \<longrightarrow> search_records env bi model domain fs limit w = (PList [], w1))
    \<and> (\<forall>ids w1. search_step env bi model domain limit w = (Inr ids, w1) \<and> \<not> truthy bi ids
          \<longrightarrow> search_records env bi model domain fs limit w = (PList [], w1))
    \<and> (\<forall>ids w1 e w2. search_step env bi model domain limit w = (Inr ids, w1) \<and> truthy bi ids
              \<and> read_step env bi model ids fs w1 = (Inl e, w2)
          \<longrightarrow> search_records env bi model domain fs limit w = (PList [], w2))"
proof (intro conjI allI impI)
  show "is_list (fst (search_records env bi model domain fs limit w))"
    by (rule search_records_is_list [OF assms])
next
  fix e w1
  assume "search_step env bi model domain limit w = (Inl e, w1)"
  then show "search_records env bi model domain fs limit w = (PList [], w1)"
    by (simp add: search_records_def)
next
  fix ids w1
  assume "search_step env bi model domain limit w = (Inr ids, w1) \<and> \<not> truthy bi ids"
  then show "search_records env bi model domain fs limit w = (PList [], w1)"
    by (simp add: search_records_def)
next
  fix ids w1 e w2
  assume "search_step env bi model domain limit w = (Inr ids, w1) \<and> truthy bi ids
            \<and> read_step env bi model ids fs w1 = (Inl e, w2)"
  then show "search_records env bi model domain fs limit w = (PList [], w2)"
    by (simp add: search_records_def)
qed

theorem search_records_returns_sequence_witness:
  "read_answers_lists (stub_env down_rpc no_http :: (unit, rat) env)
   \<and> search_step (stub_env down_rpc no_http) demo_builtins ''res.partner''
        (PList [PList [PStr ''email'', PStr ''='', PStr ''ana@example.com'']]) (PInt 1)
        fresh_world
      = (Inl RpcFault,
         \<lparr>remote = (), uid = PInt 2,
          calls = [Authenticate,
                   ExecuteKw (PInt 2) ''res.partner'' ''search''
                     [PList [PList [PStr ''email'', PStr ''='', PStr ''ana@example.com'']]]
                     [(''limit'', PInt 1)]]\<rparr>)
   \<and> fst (search_records (stub_env down_rpc no_http) demo_builtins ''res.partner''
        (PList [PList [PStr ''email'', PStr ''='', PStr ''ana@example.com'']]) PNone (PInt 1)
        (fresh_world :: (unit, rat) world)) = PList []"
proof -
  let ?env = "stub_env down_rpc no_http :: (unit, rat) env"
  let ?dom = "PList [PList [PStr ''email'', PStr ''='', PStr ''ana@example.com'']] :: rat pyval"
  have a: "read_answers_lists ?env"
    by (simp add: read_answers_lists_def stub_env_def down_rpc_def)
  have b: "search_step ?env demo_builtins ''res.partner'' ?dom (PInt 1) fresh_world
      = (Inl RpcFault,
         \<lparr>remote = (), uid = PInt 2,
          calls = [Authenticate,
                   ExecuteKw (PInt 2) ''res.partner'' ''search'' [?dom]
                     [(''limit'', PInt 1)]]\<rparr>)"
    by (simp add: search_step_def execute_kw_def ensure_uid_def authenticate_def stub_env_def
          down_rpc_def fresh_world_def demo_builtins_def)
  show ?thesis
    using search_records_returns_sequence [OF a, of demo_builtins "''res.partner''" ?dom
            PNone "PInt 1" fresh_world] a b
    by simp
qed

section \<open>Orders that already exist in the ERP\<close>

lemma py_get_dict: "py_get v k d = Inr x \<Longrightarrow> \<exists>kvs. v = PDict kvs"
  by (cases v) simp_all

lemma update_data_completed:
  assumes "py_get woo_order ''status'' PNone = Inr (PStr ''completed'')"
  shows "\<exists>msg. update_data bi now woo_order
           = Inr (PDict [(''note'', PStr msg), (''state'', PStr ''sale'')])"
proof -
  obtain kvs where "woo_order = PDict kvs"
    using assms py_get_dict by blast
  with assms show ?thesis
    by (simp add: update_data_def bindE_def)
qed

text \<open>
  C2. An order whose lookup by \<open>x_woo_order_id = str(id)\<close> finds a sale order and
  whose status is \<open>completed\<close>: \<open>process_woo_order\<close> is the update of that sale
  order with a note and \<open>state = sale\<close>, its result is the truth value of the write's
  answer, and the write is the only mutation: nothing is created.
\<close>

theorem existing_order_is_updated:
  assumes "py_get order_data ''id'' PNone = Inr oid"
    and "py_get order_data ''status'' PNone = Inr (PStr ''completed'')"
    and "search_records env bi ''sale.order''
           (PList [PList [PStr ''x_woo_order_id'', PStr ''='', PStr (py_str bi oid)]])
           PNone (PInt 1) w = (existing, w1)"
    and "truthy bi existing"
    and "py_index0 existing = Inr first"
    and "py_getitem first ''id'' = Inr sale_order_id"
  shows "\<exists>msg r w2 u.
           update_record env bi ''sale.order'' sale_order_id
              (PDict [(''note'', PStr msg), (''state'', PStr ''sale'')]) w1 = (r, w2)
           \<and> process_woo_order env bi order_data w = (Inr (truthy bi r), w2)
           \<and> mutations (calls_since w w2)
               = [ExecuteKw u ''sale.order'' ''write''
                    [PList [sale_order_id],
                     PDict [(''note'', PStr msg), (''state'', PStr ''sale'')]] []]"
proof -
  obtain msg where ud: "update_data bi (now_isoformat env (remote w1)) order_data
           = Inr (PDict [(''note'', PStr msg), (''state'', PStr ''sale'')])"
    using update_data_completed [OF assms(2)] by blast
  let ?ud = "PDict [(''note'', PStr msg), (''state'', PStr ''sale'')]"
  obtain r w2 where up: "update_record env bi ''sale.order'' sale_order_id ?ud w1 = (r, w2)"
    by fastforce
  have ueo: "update_existing_order env bi first order_data w1 = (truthy bi r, w2)"
    using assms(6) ud up by (simp add: update_existing_order_def bindE_def)
  have run: "process_woo_order env bi order_data w = (Inr (truthy bi r), w2)"
    using assms(1,3,4,5) ueo by (simp add: process_woo_order_def)
  obtain c1 where c1: "calls w1 = calls w @ c1" "mutations c1 = []"
    using search_records_calls [OF assms(3)] by blast
  obtain c2 where c2: "calls w2 = calls w1 @ c2"
      "mutations c2 = [ExecuteKw (uid (ensure_uid env bi w1)) ''sale.order'' ''write''
                         [PList [sale_order_id], ?ud] []]"
    using update_record_calls [OF up] by blast
  have "calls w2 = calls w @ (c1 @ c2)"
    using c1 c2 by simp
  then have "calls_since w w2 = c1 @ c2"
    by (rule calls_since_append)
  then have "mutations (calls_since w w2)
               = [ExecuteKw (uid (ensure_uid env bi w1)) ''sale.order'' ''write''
                    [PList [sale_order_id], ?ud] []]"
    using c1 c2 by simp
  with up run show ?thesis by blast
qed


theorem existing_order_is_updated_witness:
  "py_str demo_builtins (PInt 555) = ''555''
   \<and> (\<exists>msg w2 u.
     process_woo_order (stub_env found_rpc no_http) demo_builtins demo_order_555 fresh_world
       = (Inr True, w2)
     \<and> mutations (calls_since fresh_world w2)
         = [ExecuteKw u ''sale.order'' ''write''
              [PList [PInt 1], PDict [(''note'', PStr msg), (''state'', PStr ''sale'')]] []])"
proof -
  let ?env = "stub_env found_rpc no_http :: (unit, rat) env"
  let ?dom = "PList [PList [PStr ''x_woo_order_id'', PStr ''='',
                            PStr (py_str demo_builtins (PInt 555))]] :: rat pyval"
  let ?w1 = "snd (search_records ?env demo_builtins ''sale.order'' ?dom PNone (PInt 1)
                    fresh_world)"
  have a: "py_get demo_order_555 ''id'' PNone = Inr (PInt 555)"
    by (simp add: demo_order_555_def)
  have b: "py_get demo_order_555 ''status'' PNone = Inr (PStr ''completed'')"
    by (simp add: demo_order_555_def)
  have c: "search_records ?env demo_builtins ''sale.order'' ?dom PNone (PInt 1) fresh_world
             = (PList [PDict [(''id'', PInt 1)]], ?w1)"
    by (simp add: stub_run_defs)
  have d: "truthy demo_builtins (PList [PDict [(''id'', PInt 1 :: rat pyval)]])"
    by simp
  have e: "py_index0 (PList [PDict [(''id'', PInt 1 :: rat pyval)]])
             = Inr (PDict [(''id'', PInt 1)])"
    by simp
  have f: "py_getitem (PDict [(''id'', PInt 1 :: rat pyval)]) ''id'' = Inr (PInt 1)"
    by simp
  obtain msg r w2 u where
    up: "update_record ?env demo_builtins ''sale.order'' (PInt 1)
           (PDict [(''note'', PStr msg), (''state'', PStr ''sale'')]) ?w1 = (r, w2)"
    and run: "process_woo_order ?env demo_builtins demo_order_555 fresh_world
                = (Inr (truthy demo_builtins r), w2)"
    and mut: "mutations (calls_since fresh_world w2)
         = [ExecuteKw u ''sale.order'' ''write''
              [PList [PInt 1], PDict [(''note'', PStr msg), (''state'', PStr ''sale'')]] []]"
    using existing_order_is_updated [OF a b c d e f] by blast
  have "r = PBool True"
    using up by (auto simp: stub_run_defs Let_def split: if_splits)
  moreover have "py_str demo_builtins (PInt 555 :: rat pyval) = ''555''"
    by (simp add: str_of_int_def str_of_nat.simps)
  ultimately show ?thesis
    using run mut by auto
qed

section \<open>Email fallback of the customer upsert\<close>

text \<open>
  C4, at a partner that already carries another storefront id. The partner 1 is found
  by email and carries \<open>x_woo_id = '5'\<close>; the incoming customer has the storefront id
  9. The upsert writes \<open>x_woo_id = 9\<close> on partner 1: the id the partner had is
  overwritten, although the source comments the write as made "if it has none".
\<close>

theorem email_match_overwrites_external_id:
  "get_or_create_customer (stub_env clash_rpc no_http) demo_builtins clash_customer
     \<lparr>remote = (), uid = PInt 2, calls = []\<rparr>
   = (Inr (PInt 1),
      \<lparr>remote = (), uid = PInt 2,
       calls =
         [ExecuteKw (PInt 2) ''res.partner'' ''search''
            [PList [PList [PStr ''x_woo_id'', PStr ''='', PStr ''9'']]] [(''limit'', PInt 1)],
          ExecuteKw (PInt 2) ''res.partner'' ''search''
            [PList [PList [PStr ''email'', PStr ''='', PStr ''ana@example.com'']]]
            [(''limit'', PInt 1)],
          ExecuteKw (PInt 2) ''res.partner'' ''read'' [PList [PInt 1]] [],
          ExecuteKw (PInt 2) ''res.partner'' ''write''
            [PList [PInt 1], PDict [(''x_woo_id'', PInt 9)]] []]\<rparr>)"
  by (simp add: get_or_create_customer_def customer_by_email_def clash_customer_def
        clash_rpc_def stub_run_defs str_of_int_def str_of_nat.simps bindE_def)

section \<open>Bookings as service products\<close>

lemma format_booking_date_cases:
  "format_booking_date bi d = Inl e \<Longrightarrow>
     e = ValueError \<and> (\<exists>s. d = PStr s \<and> py_in ''T'' s \<and> isoformat_minutes bi (replace_Z s) = None)"
  by (cases d) (auto simp: format_booking_date_def split: if_splits option.splits)

text \<open>
  C6. The product dictionary built from a booking carries the external id
  \<open>{order_id}_{product_id}\<close> and the SKU \<open>BOOKING_{order_id}_{product_id}\<close>; for the
  order 100 and the product 7 these are \<open>100_7\<close> and \<open>BOOKING_100_7\<close>; they reach the
  ERP as \<open>x_woo_id\<close> and \<open>default_code\<close>. The dictionary is built unless the booking
  date is a string with a \<open>T\<close> that is no ISO date.
\<close>

theorem booking_product_ids:
  "(\<forall>pd. booking_product_data bi b = Inr pd \<longrightarrow>
      py_getitem pd ''woo_id''
        = Inr (PStr (py_str bi (order_id b) @ ''_'' @ py_str bi (product_id b)))
      \<and> py_getitem pd ''sku''
        = Inr (PStr (''BOOKING_'' @ py_str bi (order_id b) @ ''_'' @ py_str bi (product_id b)))
      \<and> (order_id b = PInt 100 \<and> product_id b = PInt 7 \<longrightarrow>
           py_getitem pd ''woo_id'' = Inr (PStr ''100_7'')
           \<and> py_getitem pd ''sku'' = Inr (PStr ''BOOKING_100_7''))
      \<and> (\<exists>od. product_odoo_data pd = Inr od
           \<and> py_getitem od ''x_woo_id'' = py_getitem pd ''woo_id''
           \<and> py_getitem od ''default_code'' = py_getitem pd ''sku''))
   \<and> (\<forall>e. booking_product_data bi b = Inl e \<longrightarrow>
        e = ValueError
        \<and> (\<exists>s. booking_date b = Some (PStr s) \<and> py_in ''T'' s
                \<and> isoformat_minutes bi (replace_Z s) = None))"
proof (intro conjI allI impI)
  fix e
  assume "booking_product_data bi b = Inl e"
  then have "format_booking_date bi (case booking_date b of None \<Rightarrow> PStr [] | Some v \<Rightarrow> v)
               = Inl e"
    by (auto simp: booking_product_data_def bindE_def Let_def split: sum.splits)
  from format_booking_date_cases [OF this]
  show "e = ValueError" 
    and "\<exists>s. booking_date b = Some (PStr s) \<and> py_in ''T'' s
                \<and> isoformat_minutes bi (replace_Z s) = None"
    by (auto split: option.splits)
next
  fix pd
  assume pd: "booking_product_data bi b = Inr pd"
  then obtain fd where fd: "format_booking_date bi
        (case booking_date b of None \<Rightarrow> PStr [] | Some v \<Rightarrow> v) = Inr fd"
    by (auto simp: booking_product_data_def bindE_def split: sum.splits)
  show w: "py_getitem pd ''woo_id''
        = Inr (PStr (py_str bi (order_id b) @ ''_'' @ py_str bi (product_id b)))"
    using pd fd by (auto simp: booking_product_data_def bindE_def Let_def)
  show s: "py_getitem pd ''sku''
        = Inr (PStr (''BOOKING_'' @ py_str bi (order_id b) @ ''_'' @ py_str bi (product_id b)))"
    using pd fd by (auto simp: booking_product_data_def bindE_def Let_def)
  show "\<exists>od. product_odoo_data pd = Inr od
           \<and> py_getitem od ''x_woo_id'' = py_getitem pd ''woo_id''
           \<and> py_getitem od ''default_code'' = py_getitem pd ''sku''"
    using pd fd by (auto simp: booking_product_data_def product_odoo_data_def bindE_def Let_def)
  assume "order_id b = PInt 100 \<and> product_id b = PInt 7"
  then show "py_getitem pd ''woo_id'' = Inr (PStr ''100_7'')"
    and "py_getitem pd ''sku'' = Inr (PStr ''BOOKING_100_7'')"
    using w s by (simp_all add: str_of_int_def str_of_nat.simps)
qed


theorem booking_product_ids_witness:
  "\<exists>pd. booking_product_data demo_builtins demo_booking = Inr pd
     \<and> py_getitem pd ''name'' = Inr (PStr ''Aquafit - 2024-05-01 10:00'')
     \<and> py_getitem pd ''woo_id'' = Inr (PStr ''100_7'')
     \<and> py_getitem pd ''sku'' = Inr (PStr ''BOOKING_100_7'')
     \<and> (\<exists>od. product_odoo_data pd = Inr od
           \<and> py_getitem od ''x_woo_id'' = Inr (PStr ''100_7'')
           \<and> py_getitem od ''default_code'' = Inr (PStr ''BOOKING_100_7'')
           \<and> sync_booking_to_odoo (stub_env empty_rpc no_http) demo_builtins demo_booking
                \<lparr>remote = (), uid = PInt 2, calls = []\<rparr>
              = (True,
                 \<lparr>remote = (), uid = PInt 2,
                  calls =
                    [ExecuteKw (PInt 2) ''product.product'' ''search''
                       [PList [PList [PStr ''x_woo_id'', PStr ''='', PStr ''100_7'']]]
                       [(''limit'', PInt 1)],
                     ExecuteKw (PInt 2) ''product.product'' ''create'' [od] []]\<rparr>))"
proof -
  obtain pd where pd: "booking_product_data demo_builtins demo_booking = Inr pd"
    and name: "py_getitem pd ''name'' = Inr (PStr ''Aquafit - 2024-05-01 10:00'')"
    by (simp add: booking_product_data_def format_booking_date_def demo_booking_def
          demo_builtins_def replace_Z_def bindE_def Let_def str_of_int_def str_of_nat.simps)
  have ids: "order_id demo_booking = PInt 100 \<and> product_id demo_booking = PInt 7"
    by (simp add: demo_booking_def)
  from booking_product_ids [of demo_builtins demo_booking] pd ids
  obtain od where w: "py_getitem pd ''woo_id'' = Inr (PStr ''100_7'')"
    and s: "py_getitem pd ''sku'' = Inr (PStr ''BOOKING_100_7'')"
    and od: "product_odoo_data pd = Inr od"
    and x: "py_getitem od ''x_woo_id'' = py_getitem pd ''woo_id''"
    and c: "py_getitem od ''default_code'' = py_getitem pd ''sku''"
    by auto
  have g: "py_get pd ''woo_id'' PNone = Inr (PStr ''100_7'')"
    using w by (cases pd) (auto split: option.splits)
  have run: "sync_booking_to_odoo (stub_env empty_rpc no_http) demo_builtins demo_booking
                \<lparr>remote = (), uid = PInt 2, calls = []\<rparr>
              = (True,
                 \<lparr>remote = (), uid = PInt 2,
                  calls =
                    [ExecuteKw (PInt 2) ''product.product'' ''search''
                       [PList [PList [PStr ''x_woo_id'', PStr ''='', PStr ''100_7'']]]
                       [(''limit'', PInt 1)],
                     ExecuteKw (PInt 2) ''product.product'' ''create'' [od] []]\<rparr>)"
    using pd od g
    by (simp add: sync_booking_to_odoo_def get_or_create_product_def create_product_def
          get_record_by_external_id_def search_records_def search_step_def execute_kw_def
          ensure_uid_def create_record_def stub_env_def empty_rpc_def demo_builtins_def)
  show ?thesis
    using pd name w s od x c run by auto
qed

section \<open>Booking extraction without metadata\<close>

lemma initial_booking_unset:
  "initial_booking bi order item = Inr bd \<Longrightarrow> booking_date bd = None \<and> persons bd = None"
  unfolding initial_booking_def bindE_def
  by (auto split: sum.splits)

lemma meta_step_keyless: "keyless m \<Longrightarrow> meta_step bi bd m = Inr bd"
  by (cases m) (simp_all add: keyless_def meta_step_def bindE_def py_lower_def)

lemma scan_meta_keyless: "list_all keyless ms \<Longrightarrow> scan_meta bi bd ms = Inr bd"
  by (induction ms) (simp_all add: meta_step_keyless bindE_def)

lemma item_booking_no_metadata:
  assumes "no_metadata_keys item"
    and "item_booking bi order item = Inr b"
  shows "persons b = Some 1
         \<and> (\<exists>d. py_getitem order ''date_created'' = Inr d \<and> booking_date b = Some d)"
proof -
  obtain ms where ms: "py_get item ''meta_data'' (PList []) = Inr (PList ms)"
    and kl: "list_all keyless ms"
    using assms(1)
    by (auto simp: no_metadata_keys_def split: sum.splits pyval.splits)
  obtain bd0 where bd0: "initial_booking bi order item = Inr bd0"
    using assms(2) by (auto simp: item_booking_def bindE_def split: sum.splits)
  have unset: "booking_date bd0 = None" "persons bd0 = None"
    using initial_booking_unset [OF bd0] by simp_all
  have "bindE (default_booking_date order bd0) (\<lambda>bd2. Inr (default_persons bd2)) = Inr b"
    using assms(2) bd0 ms scan_meta_keyless [OF kl, of bi bd0]
    by (simp add: item_booking_def bindE_def)
  then show ?thesis
    using unset
    by (auto simp: default_booking_date_def default_persons_def bindE_def split: sum.splits)
qed

lemma item_bookings_no_metadata:
  assumes "\<forall>item \<in> set items. no_metadata_keys item"
    and "item_bookings bi order items = Inr bs"
  shows "length bs = length items
         \<and> (\<forall>b \<in> set bs. persons b = Some 1
               \<and> (\<exists>d. py_getitem order ''date_created'' = Inr d \<and> booking_date b = Some d))"
  using assms
proof (induction items arbitrary: bs)
  case Nil
  then show ?case by simp
next
  case (Cons item items)
  from Cons.prems(2) obtain b bs' where b: "item_booking bi order item = Inr b"
    and bs': "item_bookings bi order items = Inr bs'" and eq: "bs = b # bs'"
    by (auto simp: bindE_def split: sum.splits)
  have "no_metadata_keys item"
    using Cons.prems(1) by simp
  from item_booking_no_metadata [OF this b] Cons.IH [OF _ bs'] Cons.prems(1) eq
  show ?case by simp
qed


lemma initial_booking_total:
  assumes "order_fields_present order" and "item_fields_present bi item"
  shows "\<exists>bd. initial_booking bi order item = Inr bd"
  using assms
  unfolding order_fields_present_def item_fields_present_def has_key_def initial_booking_def
    bindE_def
  by (auto split: sum.splits)

lemma item_booking_total:
  assumes "order_fields_present order" and "item_fields_present bi item"
    and "no_metadata_keys item"
  shows "\<exists>b. item_booking bi order item = Inr b"
proof -
  obtain bd0 where bd0: "initial_booking bi order item = Inr bd0"
    using initial_booking_total [OF assms(1,2)] by blast
  obtain ms where ms: "py_get item ''meta_data'' (PList []) = Inr (PList ms)"
    and kl: "list_all keyless ms"
    using assms(3)
    by (auto simp: no_metadata_keys_def split: sum.splits pyval.splits)
  obtain d where d: "py_getitem order ''date_created'' = Inr d"
    using assms(1) by (auto simp: order_fields_present_def has_key_def split: sum.splits)
  show ?thesis
    using bd0 ms scan_meta_keyless [OF kl, of bi bd0] d
    by (simp add: item_booking_def bindE_def default_booking_date_def)
qed

lemma item_bookings_total:
  assumes "order_fields_present order"
    and "\<forall>item \<in> set items. item_fields_present bi item \<and> no_metadata_keys item"
  shows "\<exists>bs. item_bookings bi order items = Inr bs"
  using assms(2)
proof (induction items)
  case Nil
  then show ?case by simp
next
  case (Cons item items)
  then obtain bs where bs: "item_bookings bi order items = Inr bs"
    by auto
  have "item_fields_present bi item" and "no_metadata_keys item"
    using Cons.prems by simp_all
  from item_booking_total [OF assms(1) this]
  obtain b where "item_booking bi order item = Inr b"
    by blast
  with bs show ?case by (simp add: bindE_def)
qed

text \<open>
  C5. An order whose line items carry no metadata key (the list \<open>meta_data\<close> is absent
  or empty, or its entries have no \<open>key\<close>): whenever \<open>extract_booking_data\<close> returns,
  it returns one booking per line item, each with \<open>persons = 1\<close> and
  \<open>booking_date\<close> the order's \<open>date_created\<close>; and it does return when the order and
  the line items have the fields the function reads and each total converts to a float.
\<close>

theorem no_metadata_defaults:
  assumes "py_get order ''line_items'' (PList []) = Inr (PList items)"
    and "\<forall>item \<in> set items. no_metadata_keys item"
  shows "(\<forall>bs. extract_booking_data bi order = Inr bs \<longrightarrow>
            length bs = length items
            \<and> (\<forall>b \<in> set bs. persons b = Some 1
                  \<and> (\<exists>d. py_getitem order ''date_created'' = Inr d
                          \<and> booking_date b = Some d)))
         \<and> (order_fields_present order \<and> (\<forall>item \<in> set items. item_fields_present bi item)
              \<longrightarrow> (\<exists>bs. extract_booking_data bi order = Inr bs))"
proof -
  have run: "extract_booking_data bi order = item_bookings bi order items"
    using assms(1) by (simp add: extract_booking_data_def bindE_def)
  have "\<forall>bs. extract_booking_data bi order = Inr bs \<longrightarrow>
            length bs = length items
            \<and> (\<forall>b \<in> set bs. persons b = Some 1
                  \<and> (\<exists>d. py_getitem order ''date_created'' = Inr d
                          \<and> booking_date b = Some d))"
    using item_bookings_no_metadata [OF assms(2)] run by metis
  moreover have "order_fields_present order \<and> (\<forall>item \<in> set items. item_fields_present bi item)
              \<longrightarrow> (\<exists>bs. extract_booking_data bi order = Inr bs)"
    using item_bookings_total [of order items bi] assms(2) run by auto
  ultimately show ?thesis by (rule conjI)
qed

theorem no_metadata_defaults_witness:
  "\<exists>b. extract_booking_data demo_builtins demo_order_42 = Inr [b]
       \<and> persons b = Some 1
       \<and> booking_date b = Some (PStr ''2024-04-30T18:25:43'')
       \<and> py_getitem demo_order_42 ''date_created'' = Inr (PStr ''2024-04-30T18:25:43'')"
proof -
  let ?item = "PDict [(''product_id'', PInt 9), (''name'', PStr ''Aquafit''),
                      (''quantity'', PInt 1), (''total'', PStr ''50.00''),
                      (''meta_data'', PList [])] :: rat pyval"
  have a: "py_get demo_order_42 ''line_items'' (PList []) = Inr (PList [?item])"
    by (simp add: demo_order_42_def)
  have b: "\<forall>item \<in> set [?item]. no_metadata_keys item"
    by (simp add: no_metadata_keys_def)
  have c: "order_fields_present demo_order_42"
    by (simp add: order_fields_present_def has_key_def demo_order_42_def)
  have d: "\<forall>item \<in> set [?item]. item_fields_present demo_builtins item"
    by (simp add: item_fields_present_def has_key_def bindE_def demo_builtins_def
          decimal_of_str_def is_decimal_char_def code_point_def)
  have e: "py_getitem demo_order_42 ''date_created'' = Inr (PStr ''2024-04-30T18:25:43'')"
    by (simp add: demo_order_42_def)
  from no_metadata_defaults [OF a b, of demo_builtins] c d
  obtain bs where bs: "extract_booking_data demo_builtins demo_order_42 = Inr bs"
    and len: "length bs = length [?item]"
    and each: "\<forall>b \<in> set bs. persons b = Some 1
                  \<and> (\<exists>d. py_getitem demo_order_42 ''date_created'' = Inr d
                          \<and> booking_date b = Some d)"
    by blast
  from len obtain b where "bs = [b]"
    by (cases bs) auto
  with bs each e show ?thesis
    by auto
qed

section \<open>Person counts\<close>

lemma scan_digits_decimal:
  "list_all is_decimal_char s \<Longrightarrow> s \<noteq> [] \<or> after \<Longrightarrow>
     scan_digits acc after s = Some (foldl (\<lambda>a c. a * 10 + digit_value c) acc s)"
  by (induction s arbitrary: acc after) auto

lemma decimal_not_space: "is_decimal_char c \<Longrightarrow> \<not> is_int_space c"
  by (auto simp: is_decimal_char_def is_int_space_def Let_def)

lemma decimal_not_sign: "is_decimal_char c \<Longrightarrow> c \<noteq> CHR ''-'' \<and> c \<noteq> CHR ''+''"
  by (auto simp: is_decimal_char_def code_point_def)

lemma int_of_str_decimal:
  assumes "s \<noteq> []" and "list_all is_decimal_char s"
  shows "int_of_str s = Some (decimal_value s)"
proof -
  obtain c cs where s: "s = c # cs"
    using assms(1) by (cases s) auto
  then have c: "is_decimal_char c"
    using assms(2) by simp
  have "scan_digits 0 False s = Some (decimal_value s)"
    using scan_digits_decimal [OF assms(2), of False 0] assms(1)
    by (simp add: decimal_value_def)
  then show ?thesis
    using s c decimal_not_space [OF c] decimal_not_sign [OF c]
    by (simp add: int_of_str_def)
qed

lemma parse_persons_decimal:
  assumes "s \<noteq> []" and "list_all is_decimal_char s"
  shows "parse_persons bi (PStr s) = Inr (decimal_value s)"
proof -
  have "py_isdigit s"
    using assms by (auto simp: py_isdigit_def isdigit_char_def list_all_iff)
  then show ?thesis
    using int_of_str_decimal [OF assms] by (simp add: parse_persons_def)
qed

lemma parse_persons_default:
  "\<not> py_isdigit (py_str bi v) \<Longrightarrow> parse_persons bi v = Inr 1"
  by (simp add: parse_persons_def)

lemma parse_persons_examples:
  "parse_persons bi (PStr ''-3'') = Inr 1"
  "parse_persons bi (PStr ''2.5'') = Inr 1"
  "parse_persons bi (PStr ''two'') = Inr 1"
  "parse_persons bi (PStr ''0'') = Inr 0"
  "parse_persons bi (PStr ''12'') = Inr 12"
  by (simp_all add: parse_persons_def py_isdigit_def isdigit_char_def is_decimal_char_def
        code_point_def int_of_str_def is_int_space_def digit_value_def)

text \<open>
  C10, at a value that \<open>isdigit\<close> accepts and \<open>int\<close> rejects. For strings of decimal
  digits the person count is their value, and for values whose string form is not all
  digits it is 1 (the lemmas above). The superscript two is a digit for \<open>isdigit\<close> and
  no decimal digit: \<open>int\<close> raises ValueError on it, so no person count results, and
  the extraction of the whole order raises.
\<close>

theorem persons_superscript_digit_raises:
  "py_isdigit [CHR 0xB2]
   \<and> \<not> is_decimal_char (CHR 0xB2)
   \<and> parse_persons demo_builtins (PStr [CHR 0xB2]) = Inl ValueError
   \<and> extract_booking_data demo_builtins superscript_order = Inl ValueError"
proof -
  have a: "py_isdigit [CHR 0xB2]"
    by (simp add: py_isdigit_def isdigit_char_def code_point_def)
  have b: "\<not> is_decimal_char (CHR 0xB2)"
    by (simp add: is_decimal_char_def code_point_def)
  have c: "parse_persons bi (PStr [CHR 0xB2]) = Inl ValueError" for bi :: "rat py_builtins"
    using a b by (simp add: parse_persons_def int_of_str_def is_int_space_def code_point_def)
  have lower: "py_lower ''Persons'' = ''persons''"
    by code_simp
  have d: "extract_booking_data demo_builtins superscript_order = Inl ValueError"
    by (simp add: extract_booking_data_def superscript_order_def item_booking_def
          initial_booking_def meta_step_def bindE_def c lower demo_builtins_def
          decimal_of_str_def is_decimal_char_def code_point_def)
  from a b c d show ?thesis by simp
qed

section \<open>Reverse sync\<close>

lemma int_of_str_100_7: "int_of_str ''100_7'' = Some 1007"
  by (simp add: int_of_str_def is_int_space_def is_decimal_char_def code_point_def
        digit_value_def)

text \<open>
  C9, at the composite id \<open>100_7\<close>. \<open>int\<close> reads an underscore between digits as a
  separator, so \<open>int('100_7')\<close> is 1007: the product minted for order 100 and product 7
  is looked up on the storefront as product 1007 and, that product existing, updated.
\<close>

theorem composite_id_is_pushed:
  "py_int demo_builtins (PStr ''100_7'') = Inr 1007
   \<and> sync_product_to_woo (stub_env found_rpc shop_http) demo_builtins bridge_product
        fresh_world
     = (True,
        \<lparr>remote = (), uid = PNone,
         calls =
           [Request ''GET'' ''products/1007'' PNone PNone,
            Request ''PUT'' ''products/1007''
              (PDict [(''name'', PStr ''Aquafit - 2024-05-01 10:00''),
                      (''regular_price'', PStr ''50.0''),
                      (''description'', PStr ''Clase''),
                      (''sku'', PStr ''BOOKING_100_7'')])
              PNone]\<rparr>)"
  by (simp add: sync_product_to_woo_def bridge_product_def int_of_str_100_7 get_product_def
        update_product_def make_request_def product_update_data_def bindE_def stub_env_def
        shop_http_def fresh_world_def demo_builtins_def str_of_int_def str_of_nat.simps)

lemma digit_table:
  assumes "k < 10"
  shows "is_decimal_char (''0123456789'' ! k)"
proof -
  from assms have "k = 0 \<or> k = 1 \<or> k = 2 \<or> k = 3 \<or> k = 4 \<or> k = 5 \<or> k = 6 \<or> k = 7
                   \<or> k = 8 \<or> k = 9"
    by arith
  then show ?thesis
    by (auto simp: is_decimal_char_def code_point_def)
qed

lemma str_of_nat_decimal: "list_all is_decimal_char (str_of_nat n) \<and> str_of_nat n \<noteq> []"
proof (induction n rule: str_of_nat.induct)
  case (1 n)
  show ?case
  proof (cases "n < 10")
    case True
    then show ?thesis
      using digit_table [of n] by (subst str_of_nat.simps, subst (2) str_of_nat.simps) simp
  next
    case False
    then show ?thesis
      using 1 digit_table [of "n mod 10"]
      by (subst str_of_nat.simps, subst (2) str_of_nat.simps) simp
  qed
qed

lemma scan_digits_separator:
  assumes "list_all is_decimal_char ds1" and "list_all is_decimal_char ds2" and "ds2 \<noteq> []"
    and "ds1 \<noteq> [] \<or> after"
  shows "scan_digits acc after (ds1 @ CHR ''_'' # ds2)
           = Some (foldl (\<lambda>a c. a * 10 + digit_value c) acc (ds1 @ ds2))"
  using assms
proof (induction ds1 arbitrary: acc after)
  case Nil
  then have h: "is_decimal_char (hd ds2)"
    by (cases ds2) auto
  have "\<not> is_decimal_char (CHR ''_'')"
    by (simp add: is_decimal_char_def code_point_def)
  then show ?case
    using Nil h scan_digits_decimal [of ds2 False acc] by simp
next
  case (Cons c ds1)
  then show ?case by simp
qed

lemma int_of_str_composite:
  "int_of_str (str_of_nat a @ ''_'' @ str_of_nat b)
     = Some (decimal_value (str_of_nat a @ str_of_nat b))"
proof -
  obtain c cs where s: "str_of_nat a = c # cs"
    using str_of_nat_decimal [of a] by (cases "str_of_nat a") auto
  then have c: "is_decimal_char c"
    using str_of_nat_decimal [of a] by simp
  have "scan_digits 0 False (str_of_nat a @ CHR ''_'' # str_of_nat b)
          = Some (decimal_value (str_of_nat a @ str_of_nat b))"
    using scan_digits_separator [of "str_of_nat a" "str_of_nat b" False 0]
      str_of_nat_decimal [of a] str_of_nat_decimal [of b]
    by (simp add: decimal_value_def)
  then show ?thesis
    using s c decimal_not_space [OF c] decimal_not_sign [OF c]
    by (simp add: int_of_str_def)
qed

lemma make_request_calls:
  "make_request env bi method endpoint data params w = (r, w') \<Longrightarrow>
     calls w' = calls w @ [Request method endpoint
                             (if truthy bi data then data else PNone)
                             (if truthy bi params then params else PNone)]"
  by (auto simp: make_request_def Let_def split: prod.splits)


lemma composite_id_lookup:
  assumes "py_get odoo_product ''x_woo_id'' PNone
             = Inr (PStr (str_of_nat a @ ''_'' @ str_of_nat b))"
  shows "\<exists>cs. calls (snd (sync_product_to_woo env bi odoo_product w))
           = calls w
             @ Request ''GET''
                 (''products/'' @ str_of_int (decimal_value (str_of_nat a @ str_of_nat b)))
                 PNone PNone # cs"
proof -
  let ?n = "decimal_value (str_of_nat a @ str_of_nat b)"
  let ?get = "Request ''GET'' (''products/'' @ str_of_int ?n) PNone PNone"
  obtain c cs where s: "str_of_nat a = c # cs"
    using str_of_nat_decimal [of a] by (cases "str_of_nat a") auto
  then have c: "is_decimal_char c"
    using str_of_nat_decimal [of a] by simp
  have nf: "str_of_nat a @ ''_'' @ str_of_nat b \<noteq> ''False''"
    using s c by (auto simp: is_decimal_char_def code_point_def)
  have tr: "str_of_nat a @ ''_'' @ str_of_nat b \<noteq> []"
    using s by simp
  have pi: "int_of_str (str_of_nat a @ ''_'' @ str_of_nat b) = Some ?n"
    by (rule int_of_str_composite)
  obtain r w1 where g: "get_product env bi ?n w = (r, w1)"
    by fastforce
  have c1: "calls w1 = calls w @ [?get]"
    using make_request_calls [of env bi "''GET''" _ PNone PNone w r w1] g
    by (simp add: get_product_def)
  have run: "sync_product_to_woo env bi odoo_product w =
     (case r of
        Inl e \<Rightarrow> (False, w1)
      | Inr existing_product \<Rightarrow>
          if truthy bi existing_product then
            (case product_update_data bi odoo_product of
               Inl e \<Rightarrow> (False, w1)
             | Inr ud \<Rightarrow>
                 (case update_product env bi ?n ud w1 of
                    (Inl e, w2) \<Rightarrow> (False, w2)
                  | (Inr result, w2) \<Rightarrow> (truthy bi result, w2)))
          else (False, w1))"
    using assms nf tr pi g by (simp add: sync_product_to_woo_def)
  have "snd (sync_product_to_woo env bi odoo_product w) = w1
        \<or> (\<exists>ud r2. snd (sync_product_to_woo env bi odoo_product w)
                      = snd (update_product env bi ?n ud w1))"
    unfolding run by (auto split: sum.splits prod.splits) (metis snd_conv)+
  then show ?thesis
  proof
    assume "snd (sync_product_to_woo env bi odoo_product w) = w1"
    with c1 show ?thesis by simp
  next
    assume "\<exists>ud r2. snd (sync_product_to_woo env bi odoo_product w)
                      = snd (update_product env bi ?n ud w1)"
    then obtain ud where u: "snd (sync_product_to_woo env bi odoo_product w)
                      = snd (update_product env bi ?n ud w1)"
      by blast
    obtain r2 w2 where up: "update_product env bi ?n ud w1 = (r2, w2)"
      by fastforce
    have "\<exists>c2. calls w2 = calls w1 @ [c2]"
      using make_request_calls [of env bi "''PUT''" _ ud PNone w1 r2 w2] up
      by (simp add: update_product_def)
    with u up c1 show ?thesis by auto
  qed
qed

text \<open>
  C9 as amended. A product whose \<open>x_woo_id\<close> is absent or falsy, is the string
  \<open>False\<close>, or is rejected by \<open>int\<close>: the reverse sync returns failure and leaves the
  world as it was, so no storefront call of any kind was made. A composite id
  \<open>{a}_{b}\<close> of two natural numbers is none of these: \<open>int\<close> reads it as the number
  written by the digits of both, and the first thing the reverse sync does is to ask the
  storefront for the product of that number.
\<close>

theorem reverse_sync_skips:
  assumes "py_get odoo_product ''x_woo_id'' PNone = Inr woo_id"
  shows "(\<not> truthy bi woo_id \<or> woo_id = PStr ''False'' \<or> (\<exists>e. py_int bi woo_id = Inl e)
            \<longrightarrow> sync_product_to_woo env bi odoo_product w = (False, w))
         \<and> (\<forall>a b. woo_id = PStr (str_of_nat a @ ''_'' @ str_of_nat b) \<longrightarrow>
              py_int bi woo_id = Inr (decimal_value (str_of_nat a @ str_of_nat b))
              \<and> (\<exists>cs. calls (snd (sync_product_to_woo env bi odoo_product w))
                     = calls w
                       @ Request ''GET''
                           (''products/''
                            @ str_of_int (decimal_value (str_of_nat a @ str_of_nat b)))
                           PNone PNone # cs))"
proof (intro conjI allI impI)
  assume "\<not> truthy bi woo_id \<or> woo_id = PStr ''False'' \<or> (\<exists>e. py_int bi woo_id = Inl e)"
  then show "sync_product_to_woo env bi odoo_product w = (False, w)"
    using assms by (auto simp: sync_product_to_woo_def)
next
  fix a b
  assume id: "woo_id = PStr (str_of_nat a @ ''_'' @ str_of_nat b)"
  then show "py_int bi woo_id = Inr (decimal_value (str_of_nat a @ str_of_nat b))"
    using int_of_str_composite [of a b] by simp
  show "\<exists>cs. calls (snd (sync_product_to_woo env bi odoo_product w))
                     = calls w
                       @ Request ''GET''
                           (''products/''
                            @ str_of_int (decimal_value (str_of_nat a @ str_of_nat b)))
                           PNone PNone # cs"
    using composite_id_lookup [of odoo_product a b] assms id by simp
qed

theorem reverse_sync_skips_witness:
  "py_int demo_builtins (PStr ''n/a'') = Inl ValueError
   \<and> sync_product_to_woo (stub_env found_rpc shop_http) demo_builtins unparseable_product
        fresh_world
     = (False, fresh_world)
   \<and> py_int demo_builtins (PStr ''100_7'') = Inr 1007
   \<and> (\<exists>cs. calls (snd (sync_product_to_woo (stub_env found_rpc shop_http) demo_builtins
                          bridge_product fresh_world))
          = Request ''GET'' ''products/1007'' PNone PNone # cs)"
proof -
  have a: "py_get unparseable_product ''x_woo_id'' PNone = Inr (PStr ''n/a'')"
    by (simp add: unparseable_product_def)
  have b: "py_int demo_builtins (PStr ''n/a'' :: rat pyval) = Inl ValueError"
    by (simp add: int_of_str_def is_int_space_def is_decimal_char_def code_point_def)
  have skip: "sync_product_to_woo (stub_env found_rpc shop_http) demo_builtins
                unparseable_product fresh_world = (False, fresh_world)"
    using reverse_sync_skips [OF a, of demo_builtins "stub_env found_rpc shop_http"
            fresh_world] b
    by simp
  have c: "py_get bridge_product ''x_woo_id'' PNone
             = Inr (PStr (str_of_nat 100 @ ''_'' @ str_of_nat 7))"
    by (simp add: bridge_product_def str_of_nat.simps)
  have v: "decimal_value (str_of_nat 100 @ str_of_nat 7) = 1007"
    by (simp add: decimal_value_def digit_value_def code_point_def str_of_nat.simps)
  have n: "str_of_int 1007 = ''1007''"
    by (simp add: str_of_int_def str_of_nat.simps)
  have w: "calls (fresh_world :: (unit, rat) world) = []"
    by (simp add: fresh_world_def)
  have push: "py_int demo_builtins (PStr (str_of_nat 100 @ ''_'' @ str_of_nat 7)) = Inr 1007
      \<and> (\<exists>cs. calls (snd (sync_product_to_woo (stub_env found_rpc shop_http) demo_builtins
                          bridge_product fresh_world))
          = Request ''GET'' ''products/1007'' PNone PNone # cs)"
    using reverse_sync_skips [OF c, of demo_builtins "stub_env found_rpc shop_http"
            fresh_world, THEN conjunct2, rule_format, OF refl] v n w
    by simp
  then have "py_int demo_builtins (PStr ''100_7'' :: rat pyval) = Inr 1007"
    by (simp add: str_of_nat.simps)
  with skip b push show ?thesis
    by simp
qed

section \<open>Unit prices of order lines\<close>

lemma order_lines_append:
  "order_lines env bi soid (xs @ ys) w =
     (case order_lines env bi soid xs w of
        (Inl e, w1) \<Rightarrow> (Inl e, w1)
      | (Inr u, w1) \<Rightarrow> order_lines env bi soid ys w1)"
  by (induction xs arbitrary: w) (auto split: prod.splits sum.splits)

text \<open>
  C1 as amended. The run has created the order header and the lines of the bookings
  \<open>pre\<close>, and the product of the booking \<open>b\<close> is found. If the quantity of \<open>b\<close> is
  0, the division raises ZeroDivisionError, which \<open>create_sale_order_in_odoo\<close> catches:
  it returns \<open>None\<close>, and the world is the one after the product lookup, so no line
  was created for \<open>b\<close> or for the bookings after it. If the quantity is another
  integer, negative ones included, and converts to a float, nothing fails: the line is
  created with the unit price \<open>total / quantity\<close>. If it is an integer too large for a
  float, the division raises OverflowError, caught the same way: \<open>None\<close> and no line.
  (That no exception leaves the function is its type: every exception of the body is
  the result \<open>None\<close>.)
\<close>

theorem unit_price_division:
  assumes "order_customer_data bi woo_order = Inr customer_data"
    and "get_or_create_customer env bi customer_data w = (Inr partner_id, w1)"
    and "truthy bi partner_id"
    and "sale_order_data bi partner_id woo_order = Inr order_data"
    and "create_record env bi ''sale.order'' order_data w1 = (sale_order_id, w2)"
    and "truthy bi sale_order_id"
    and "order_lines env bi sale_order_id pre w2 = (Inr (), w3)"
    and "get_record_by_external_id env bi ''product.product''
           (PStr (py_str bi (order_id b) @ ''_'' @ py_str bi (product_id b))) w3
         = (Inr product, w4)"
    and "truthy bi product"
    and "py_getitem product ''id'' = Inr pid"
  shows "(quantity b = PInt 0 \<longrightarrow>
            order_line env bi sale_order_id b w3 = (Inl ZeroDivisionError, w4)
            \<and> create_sale_order_in_odoo env bi woo_order (pre @ b # post) w = (PNone, w4))
         \<and> (\<forall>n y. quantity b = PInt n \<and> n \<noteq> 0 \<and> float_of_int bi n = Some y \<longrightarrow>
              (\<exists>line_id w5.
                 create_record env bi ''sale.order.line''
                   (PDict [(''order_id'', sale_order_id), (''product_id'', pid),
                           (''product_uom_qty'', PInt n),
                           (''price_unit'', PFloat (float_truediv bi (total_price b) y))]) w4
                   = (line_id, w5)
                 \<and> order_line env bi sale_order_id b w3 = (Inr (), w5)))
         \<and> (\<forall>n. quantity b = PInt n \<and> n \<noteq> 0 \<and> float_of_int bi n = None \<longrightarrow>
              order_line env bi sale_order_id b w3 = (Inl OverflowError, w4)
              \<and> create_sale_order_in_odoo env bi woo_order (pre @ b # post) w
                    = (PNone, w4))"
proof (intro conjI allI impI)
  assume q: "quantity b = PInt 0"
  show line: "order_line env bi sale_order_id b w3 = (Inl ZeroDivisionError, w4)"
    using assms(8,9,10) q by (simp add: order_line_def line_data_def bindE_def)
  have "order_lines env bi sale_order_id (pre @ b # post) w2 = (Inl ZeroDivisionError, w4)"
    using assms(7) line by (simp add: order_lines_append)
  then show "create_sale_order_in_odoo env bi woo_order (pre @ b # post) w = (PNone, w4)"
    using assms(1-6) by (simp add: create_sale_order_in_odoo_def)
next
  fix n y
  assume h: "quantity b = PInt n \<and> n \<noteq> 0 \<and> float_of_int bi n = Some y"
  let ?ld = "PDict [(''order_id'', sale_order_id), (''product_id'', pid),
                    (''product_uom_qty'', PInt n),
                    (''price_unit'', PFloat (float_truediv bi (total_price b) y))]"
  obtain line_id w5 where cr: "create_record env bi ''sale.order.line'' ?ld w4 = (line_id, w5)"
    by fastforce
  have "line_data bi sale_order_id product b = Inr ?ld"
    using assms(10) h by (simp add: line_data_def bindE_def)
  then have "order_line env bi sale_order_id b w3 = (Inr (), w5)"
    using assms(8,9) cr by (simp add: order_line_def)
  with cr show "\<exists>line_id w5.
                 create_record env bi ''sale.order.line'' ?ld w4 = (line_id, w5)
                 \<and> order_line env bi sale_order_id b w3 = (Inr (), w5)"
    by blast
next
  fix n
  assume h: "quantity b = PInt n \<and> n \<noteq> 0 \<and> float_of_int bi n = None"
  show line: "order_line env bi sale_order_id b w3 = (Inl OverflowError, w4)"
    using assms(8,9,10) h by (simp add: order_line_def line_data_def bindE_def)
  have "order_lines env bi sale_order_id (pre @ b # post) w2 = (Inl OverflowError, w4)"
    using assms(7) line by (simp add: order_lines_append)
  then show "create_sale_order_in_odoo env bi woo_order (pre @ b # post) w = (PNone, w4)"
    using assms(1-6) by (simp add: create_sale_order_in_odoo_def)
qed


lemmas sale_order_run_defs =
  create_sale_order_in_odoo_def order_customer_data_def get_or_create_customer_def
  sale_order_data_def order_line_def line_data_def py_strip_def is_space_char_def
  code_point_def newline_def bindE_def demo_order_42_def demo_booking_def session_world_def
  get_record_by_external_id_def search_records_def search_step_def read_step_def
  execute_kw_def ensure_uid_def create_record_def stub_env_def found_rpc_def
  demo_builtins_def str_of_int_def str_of_nat.simps

text \<open>
  C1, at the quantity -1: the unit-price computation does not fail. The sale order 10
  is returned and its line is created with the unit price -50.
\<close>

theorem negative_quantity_creates_line:
  "fst (create_sale_order_in_odoo (stub_env found_rpc no_http) demo_builtins demo_order_42
          [demo_booking\<lparr>quantity := PInt (- 1)\<rparr>] session_world) = PInt 10
   \<and> last (calls (snd (create_sale_order_in_odoo (stub_env found_rpc no_http) demo_builtins
                         demo_order_42 [demo_booking\<lparr>quantity := PInt (- 1)\<rparr>]
                         session_world)))
     = ExecuteKw (PInt 2) ''sale.order.line'' ''create''
         [PDict [(''order_id'', PInt 10), (''product_id'', PInt 1),
                 (''product_uom_qty'', PInt (- 1)), (''price_unit'', PFloat (- 50))]] []"
  by (simp add: sale_order_run_defs)

theorem unit_price_division_witness:
  "fst (create_sale_order_in_odoo (stub_env found_rpc no_http) demo_builtins demo_order_42
          [demo_booking\<lparr>quantity := PInt 0\<rparr>] session_world) = PNone
   \<and> list_all (\<lambda>c. model_of_call c \<noteq> ''sale.order.line'')
        (calls (snd (create_sale_order_in_odoo (stub_env found_rpc no_http) demo_builtins
                       demo_order_42 [demo_booking\<lparr>quantity := PInt 0\<rparr>]
                       session_world)))
   \<and> fst (create_sale_order_in_odoo (stub_env found_rpc no_http) bounded_builtins
            demo_order_42 [demo_booking\<lparr>quantity := PInt huge_quantity\<rparr>] session_world)
       = PNone
   \<and> list_all (\<lambda>c. model_of_call c \<noteq> ''sale.order.line'')
        (calls (snd (create_sale_order_in_odoo (stub_env found_rpc no_http) bounded_builtins
                       demo_order_42 [demo_booking\<lparr>quantity := PInt huge_quantity\<rparr>]
                       session_world)))"
proof -
  let ?env = "stub_env found_rpc no_http :: (unit, rat) env"
  let ?b = "demo_booking\<lparr>quantity := PInt 0\<rparr>"
  obtain cd where a: "order_customer_data demo_builtins demo_order_42 = Inr cd"
    and cd: "cd = PDict [(''id'', PInt 3), (''email'', PStr ''ana@example.com''),
                         (''name'', PStr ''Ana Ruiz''), (''phone'', PStr ''555-0100''),
                         (''woo_id'', PInt 3)]"
    by (simp add: sale_order_run_defs)
  let ?w1 = "snd (get_or_create_customer ?env demo_builtins cd session_world)"
  have b: "get_or_create_customer ?env demo_builtins cd session_world = (Inr (PInt 1), ?w1)"
    unfolding cd by (simp add: sale_order_run_defs)
  have c: "truthy demo_builtins (PInt 1 :: rat pyval)"
    by simp
  obtain od where d: "sale_order_data demo_builtins (PInt 1) demo_order_42 = Inr od"
    by (simp add: sale_order_run_defs)
  let ?w2 = "snd (create_record ?env demo_builtins ''sale.order'' od ?w1)"
  have e: "create_record ?env demo_builtins ''sale.order'' od ?w1 = (PInt 10, ?w2)"
    unfolding cd by (simp add: sale_order_run_defs)
  have f: "truthy demo_builtins (PInt 10 :: rat pyval)"
    by simp
  have g: "order_lines ?env demo_builtins (PInt 10) [] ?w2 = (Inr (), ?w2)"
    by simp
  let ?ext = "PStr (py_str demo_builtins (order_id ?b) @ ''_''
                    @ py_str demo_builtins (product_id ?b)) :: rat pyval"
  let ?w4 = "snd (get_record_by_external_id ?env demo_builtins ''product.product'' ?ext ?w2)"
  have h: "get_record_by_external_id ?env demo_builtins ''product.product'' ?ext ?w2
             = (Inr (PDict [(''id'', PInt 1)]), ?w4)"
    unfolding cd by (simp add: sale_order_run_defs)
  have i: "truthy demo_builtins (PDict [(''id'', PInt 1 :: rat pyval)])"
    by simp
  have j: "py_getitem (PDict [(''id'', PInt 1 :: rat pyval)]) ''id'' = Inr (PInt 1)"
    by simp
  have q: "quantity ?b = PInt 0"
    by simp
  have run: "create_sale_order_in_odoo ?env demo_builtins demo_order_42 ([] @ ?b # [])
               session_world = (PNone, ?w4)"
    using unit_price_division [OF a b c d e f g h i j, of "[]"] q by blast
  have "list_all (\<lambda>c. model_of_call c \<noteq> ''sale.order.line'') (calls ?w4)"
    using d unfolding cd
    by (simp add: sale_order_run_defs model_of_call_def)
  with run have zero:
    "fst (create_sale_order_in_odoo ?env demo_builtins demo_order_42 [?b] session_world)
       = PNone
     \<and> list_all (\<lambda>c. model_of_call c \<noteq> ''sale.order.line'')
          (calls (snd (create_sale_order_in_odoo ?env demo_builtins demo_order_42 [?b]
                         session_world)))"
    by simp
  have overflow:
    "fst (create_sale_order_in_odoo ?env bounded_builtins demo_order_42
            [demo_booking\<lparr>quantity := PInt huge_quantity\<rparr>] session_world) = PNone
     \<and> list_all (\<lambda>c. model_of_call c \<noteq> ''sale.order.line'')
          (calls (snd (create_sale_order_in_odoo ?env bounded_builtins demo_order_42
                         [demo_booking\<lparr>quantity := PInt huge_quantity\<rparr>]
                         session_world)))"
  proof -
    let ?env = "stub_env found_rpc no_http :: (unit, rat) env"
    let ?bi = "bounded_builtins"
    let ?b = "demo_booking\<lparr>quantity := PInt huge_quantity\<rparr>"
    note defs = sale_order_run_defs bounded_builtins_def
    obtain cd where a: "order_customer_data ?bi demo_order_42 = Inr cd"
      and cd: "cd = PDict [(''id'', PInt 3), (''email'', PStr ''ana@example.com''),
                           (''name'', PStr ''Ana Ruiz''), (''phone'', PStr ''555-0100''),
                           (''woo_id'', PInt 3)]"
      by (simp add: defs)
    let ?w1 = "snd (get_or_create_customer ?env ?bi cd session_world)"
    have b: "get_or_create_customer ?env ?bi cd session_world = (Inr (PInt 1), ?w1)"
      unfolding cd by (simp add: defs)
    have c: "truthy ?bi (PInt 1 :: rat pyval)"
      by simp
    obtain od where d: "sale_order_data ?bi (PInt 1) demo_order_42 = Inr od"
      by (simp add: defs)
    let ?w2 = "snd (create_record ?env ?bi ''sale.order'' od ?w1)"
    have e: "create_record ?env ?bi ''sale.order'' od ?w1 = (PInt 10, ?w2)"
      unfolding cd by (simp add: defs)
    have f: "truthy ?bi (PInt 10 :: rat pyval)"
      by simp
    have g: "order_lines ?env ?bi (PInt 10) [] ?w2 = (Inr (), ?w2)"
      by simp
    let ?ext = "PStr (py_str ?bi (order_id ?b) @ ''_'' @ py_str ?bi (product_id ?b)) :: rat pyval"
    let ?w4 = "snd (get_record_by_external_id ?env ?bi ''product.product'' ?ext ?w2)"
    have h: "get_record_by_external_id ?env ?bi ''product.product'' ?ext ?w2
               = (Inr (PDict [(''id'', PInt 1)]), ?w4)"
      unfolding cd by (simp add: defs)
    have i: "truthy ?bi (PDict [(''id'', PInt 1 :: rat pyval)])"
      by simp
    have j: "py_getitem (PDict [(''id'', PInt 1 :: rat pyval)]) ''id'' = Inr (PInt 1)"
      by simp
    have q: "quantity ?b = PInt huge_quantity \<and> huge_quantity \<noteq> 0
             \<and> float_of_int ?bi huge_quantity = None"
      by (simp add: bounded_builtins_def huge_quantity_def double_overflow_bound_def)
    have run: "create_sale_order_in_odoo ?env ?bi demo_order_42 ([] @ ?b # []) session_world
                 = (PNone, ?w4)"
      using unit_price_division [OF a b c d e f g h i j, of "[]", THEN conjunct2, THEN conjunct2,
              rule_format, OF q]
      by (rule conjunct2)
    have "list_all (\<lambda>c. model_of_call c \<noteq> ''sale.order.line'') (calls ?w4)"
      using d unfolding cd
      by (simp add: defs model_of_call_def)
    with run show ?thesis by simp
  qed
  from zero overflow show ?thesis by simp
qed

end
